theory Spec2Isabelle
  imports Main "HOL-Library.Word" "HOL-Library.AList"
begin

unbundle bit_operations_syntax

section \<open>Basic types (bsatypes.h)\<close>

text \<open>
  The library is built for Windows (\<open>Windows.h\<close>, \<open>CreateDirectoryA\<close>), where
  \<open>unsigned long\<close> has 32 bits; \<open>std::size_t\<close> has 64 bits.
\<close>

type_synonym BSAUChar = "8 word"
type_synonym BSAUShort = "16 word"
type_synonym BSAUInt = "32 word"
type_synonym BSAULong = "32 word"
type_synonym BSAHash = "64 word"
type_synonym size_t = "64 word"

datatype ArchiveType =
    TYPE_MORROWIND
  | TYPE_OBLIVION
  | TYPE_FALLOUT3
  | TYPE_SKYRIMSE
  | TYPE_FALLOUT4
  | TYPE_STARFIELD
  | TYPE_STARFIELD_LZ4_TEXTURE
  | TYPE_FALLOUT4NG_7
  | TYPE_FALLOUT4NG_8

text \<open>
  Modelled from the spec: the status codes of errorcodes.h, which is not among the
  sources, as section 6 of the spec lists them.
\<close>

datatype EErrorCode =
    ERROR_NONE
  | ERROR_FILENOTFOUND
  | ERROR_ACCESSFAILED
  | ERROR_INVALIDDATA
  | ERROR_INVALIDHASHES
  | ERROR_ZLIBINITFAILED

text \<open>
  The messages of the exceptions, kept as a structure instead of the text that
  \<open>makeString\<close> formats: \<open>"invalid type %d"\<close>, \<open>"not a bsa or ba2 file"\<close>,
  \<open>"can't read from bsa"\<close> and \<open>"%s (filename: %s)"\<close>.
\<close>

datatype what =
    InvalidType BSAULong
  | NotABsaOrBa2File
  | CantReadFromBsa
  | WithFileName what string

text \<open>
  The two exception classes that the code throws or catches by name.
  \<open>data_invalid_exception\<close> is declared in bsaexception.h, which is not among the
  sources; it is built from a message only and queried with \<open>what()\<close>, and \<open>Archive::read\<close> re-throws it with the file name
  added to the message. It is a class of its own here, distinct from
  \<open>std::ios_base::failure\<close>, so a handler for \<open>std::ios_base::failure\<close> does not
  catch it. \<open>undefined_behaviour\<close> is no exception: it marks the places where the source
  reads through a null buffer or copies past the end of one, where C++ defines no
  behaviour and the model stops.
\<close>

datatype exn =
    data_invalid_exception what
  | ios_base_failure
  | undefined_behaviour

section \<open>The input stream\<close>

text \<open>
  A \<open>std::fstream\<close> used for reading: whether it is open, the bytes of the file, the
  get position and the fail bit. A read on a failed stream does nothing; a read on a
  closed stream fails; a read past the end delivers the bytes that are left and sets the
  fail bit. Only \<open>badbit\<close> is in the exception mask of
  the streams, and no operation of this model sets it, so the stream itself never throws.
\<close>

record fstream =
  is_open :: bool
  content :: "8 word list"
  gpos :: nat
  failbit :: bool

definition closed_stream :: fstream where
  "closed_stream = \<lparr>is_open = False, content = [], gpos = 0, failbit = False\<rparr>"

definition open_stream :: "8 word list \<Rightarrow> fstream" where
  "open_stream bs = \<lparr>is_open = True, content = bs, gpos = 0, failbit = False\<rparr>"

definition stream_read :: "nat \<Rightarrow> fstream \<Rightarrow> 8 word list \<times> fstream" where
  "stream_read n s =
     (if failbit s then ([], s)
      else if \<not> is_open s then ([], s\<lparr>failbit := True\<rparr>)
      else if gpos s + n \<le> length (content s)
      then (take n (drop (gpos s) (content s)), s\<lparr>gpos := gpos s + n\<rparr>)
      else (drop (gpos s) (content s),
            s\<lparr>gpos := max (gpos s) (length (content s)), failbit := True\<rparr>))"

definition seekg :: "nat \<Rightarrow> fstream \<Rightarrow> fstream" where
  "seekg p s =
     (if failbit s then s
      else if \<not> is_open s then s\<lparr>failbit := True\<rparr>
      else s\<lparr>gpos := p\<rparr>)"

definition clear :: "fstream \<Rightarrow> fstream" where
  "clear s = s\<lparr>failbit := False\<rparr>"

text \<open>Little-endian decoding of a byte sequence, as the union in \<open>readType\<close> does on x86.\<close>

definition le_nat :: "8 word list \<Rightarrow> nat" where
  "le_nat bs = foldr (\<lambda>b n. unat b + 256 * n) bs 0"

text \<open>Computations on the stream that may throw: the result or the exception, and the stream.\<close>

type_synonym 'a io = "fstream \<Rightarrow> (exn + 'a) \<times> fstream"

definition returnS :: "'a \<Rightarrow> 'a io" where
  "returnS v = (\<lambda>s. (Inr v, s))"

definition throwS :: "exn \<Rightarrow> 'a io" where
  "throwS e = (\<lambda>s. (Inl e, s))"

definition bindS :: "'a io \<Rightarrow> ('a \<Rightarrow> 'b io) \<Rightarrow> 'b io" where
  "bindS m f = (\<lambda>s. case m s of (Inl e, s') \<Rightarrow> (Inl e, s') | (Inr v, s') \<Rightarrow> f v s')"

text \<open>\<open>readType<T>\<close>: reads \<open>sizeof(T)\<close> bytes and throws when the stream failed.\<close>

definition readType :: "nat \<Rightarrow> nat io" where
  "readType n s =
     (case stream_read n s of (bs, s') \<Rightarrow>
        if failbit s' then (Inl (data_invalid_exception CantReadFromBsa), s')
        else (Inr (le_nat bs), s'))"

definition readUChar :: "BSAUChar io" where
  "readUChar = bindS (readType 1) (\<lambda>n. returnS (of_nat n))"

definition readUInt :: "BSAUInt io" where
  "readUInt = bindS (readType 4) (\<lambda>n. returnS (of_nat n))"

definition readHash :: "BSAHash io" where
  "readHash = bindS (readType 8) (\<lambda>n. returnS (of_nat n))"

section \<open>The archive header (bsaarchive.cpp)\<close>

definition FLAG_HASDIRNAMES :: BSAULong where "FLAG_HASDIRNAMES = 0x00000001"
definition FLAG_HASFILENAMES :: BSAULong where "FLAG_HASFILENAMES = 0x00000002"
definition FLAG_DEFAULTCOMPRESSED :: BSAULong where "FLAG_DEFAULTCOMPRESSED = 0x00000004"
definition FLAG_NAMEPREFIXED :: BSAULong where "FLAG_NAMEPREFIXED = 0x00000100"

definition typeFromID :: "BSAULong \<Rightarrow> exn + ArchiveType" where
  "typeFromID typeID =
     (if typeID = 0x100 then Inr TYPE_MORROWIND
      else if typeID = 0x67 then Inr TYPE_OBLIVION
      else if typeID = 0x68 then Inr TYPE_FALLOUT3
      else if typeID = 0x69 then Inr TYPE_SKYRIMSE
      else if typeID = 0x01 then Inr TYPE_FALLOUT4
      else if typeID = 0x02 then Inr TYPE_STARFIELD
      else if typeID = 0x03 then Inr TYPE_STARFIELD_LZ4_TEXTURE
      else Inl (data_invalid_exception (InvalidType typeID)))"

record Header =
  fileIdentifier :: "32 word"
  archType :: "8 word list"
  type :: ArchiveType
  offset :: BSAUInt
  archiveFlags :: BSAUInt
  folderCount :: BSAUInt
  fileCount :: BSAUInt
  folderNameLength :: BSAUInt
  fileNameLength :: BSAUInt
  fileFlags :: BSAUInt
  nameTableOffset :: BSAHash

text \<open>
  \<open>Header result;\<close> is not initialised in the source. The fields that a branch of
  \<open>readHeader\<close> does not assign are indeterminate there and are never read afterwards;
  the model holds zeros in them.
\<close>

definition Header_uninit :: Header where
  "Header_uninit =
     \<lparr>fileIdentifier = 0, archType = [], type = TYPE_MORROWIND, offset = 0, archiveFlags = 0,
      folderCount = 0, fileCount = 0, folderNameLength = 0, fileNameLength = 0,
      fileFlags = 0, nameTableOffset = 0\<rparr>"

definition is_ba2_type :: "ArchiveType \<Rightarrow> bool" where
  "is_ba2_type t \<longleftrightarrow>
     t = TYPE_FALLOUT4 \<or> t = TYPE_STARFIELD \<or> t = TYPE_STARFIELD_LZ4_TEXTURE"

definition readHeader :: "Header io" where
  "readHeader =
     bindS readUInt (\<lambda>ident.
     let result = Header_uninit\<lparr>fileIdentifier := ident\<rparr> in
     if ident \<noteq> 0x00415342 \<and> ident \<noteq> 0x58445442 \<and> ident \<noteq> 0x00000100
     then throwS (data_invalid_exception NotABsaOrBa2File)
     else if ident \<noteq> 0x00000100 then
       bindS readUInt (\<lambda>typeID.
       case typeFromID typeID of
         Inl e \<Rightarrow> throwS e
       | Inr t \<Rightarrow>
           if is_ba2_type t then
             bindS (\<lambda>s. case stream_read 4 s of (bs, s') \<Rightarrow> (Inr bs, s')) (\<lambda>tag.
             bindS readUInt (\<lambda>fc.
             bindS readHash (\<lambda>nto.
             returnS (result\<lparr>type := t, archType := tag, fileCount := fc,
                        nameTableOffset := nto,
                        archiveFlags := FLAG_HASDIRNAMES OR FLAG_HASFILENAMES\<rparr>))))
           else
             bindS readUInt (\<lambda>off.
             bindS readUInt (\<lambda>af.
             bindS readUInt (\<lambda>dc.
             bindS readUInt (\<lambda>fc.
             bindS readUInt (\<lambda>dnl.
             bindS readUInt (\<lambda>fnl.
             bindS readUInt (\<lambda>ff.
             returnS (result\<lparr>type := t, offset := off, archiveFlags := af,
                        folderCount := dc, fileCount := fc, folderNameLength := dnl,
                        fileNameLength := fnl, fileFlags := ff\<rparr>)))))))))
     else
       bindS readUInt (\<lambda>off.
       bindS readUInt (\<lambda>fc.
       returnS (result\<lparr>type := TYPE_MORROWIND, offset := off, fileCount := fc,
                  archiveFlags := FLAG_HASDIRNAMES OR FLAG_HASFILENAMES\<rparr>))))"

section \<open>Files, folders and the archive\<close>

record FO4TextureHeader =
  nameHash :: BSAUInt
  extension :: "8 word list"
  dirHash :: BSAUInt
  unknown1 :: BSAUChar
  chunkNumber :: BSAUChar
  chunkHeaderSize :: BSAUShort
  height :: BSAUShort
  width :: BSAUShort
  mipCount :: BSAUChar
  format :: nat
  isCubemap :: bool
  unknown2 :: BSAUChar

record FO4TextureChunk =
  chunk_offset :: BSAHash
  packedSize :: BSAUInt
  unpackedSize :: BSAUInt
  startMip :: BSAUShort
  endMip :: BSAUShort
  chunk_unknown :: BSAUInt

text \<open>
  Modelled from the spec: the class \<open>File\<close> of bsafile.h, which is not among the sources.
  The fields are the members that bsaarchive.cpp and the folder code read and write; the
  attributes are those of the spec's data model: name, stored size in bytes, absolute
  data offset, uncompressed size (0 if unknown or raw), per-entry compression-toggle bit
  (read with \<open>compressToggled()\<close>), texture header and texture chunks.
  \<open>m_DataOffsetWrite\<close> is the offset of the payload in the archive being written.
\<close>

record File =
  m_Name :: string
  m_FileSize :: BSAULong
  m_UncompressedFileSize :: BSAULong
  m_DataOffset :: BSAHash
  m_ToggleCompressed :: bool
  m_TextureHeader :: FO4TextureHeader
  m_TextureChunks :: "FO4TextureChunk list"
  m_FileHash :: BSAHash
  m_DataOffsetWrite :: BSAULong

definition compressToggled :: "File \<Rightarrow> bool" where
  "compressToggled f = m_ToggleCompressed f"

text \<open>The value-initialised texture header \<open>{}\<close> that the readers pass for general files.\<close>

definition no_texture_header :: FO4TextureHeader where
  "no_texture_header =
     \<lparr>nameHash = 0, extension = [0, 0, 0, 0], dirHash = 0, unknown1 = 0, chunkNumber = 0,
      chunkHeaderSize = 0, height = 0, width = 0, mipCount = 0, format = 0,
      isCubemap = False, unknown2 = 0\<rparr>"

text \<open>
  Modelled from the spec: the constructor
  \<open>File(name, folder, size, offset, uncompressedSize, header, texChunks)\<close> of bsafile.cpp,
  called by \<open>Folder::addFolderFromFile\<close>. It stores its arguments; the toggle bit of a
  file made this way is clear. \<open>hash\<close> is the file-name hash function, a parameter.
\<close>

definition File_new ::
  "(string \<Rightarrow> BSAHash) \<Rightarrow> string \<Rightarrow> BSAUInt \<Rightarrow> BSAHash \<Rightarrow> BSAUInt \<Rightarrow> FO4TextureHeader \<Rightarrow>
   FO4TextureChunk list \<Rightarrow> File" where
  "File_new hash name sz off uncompressedSize header texChunks =
     \<lparr>m_Name = name, m_FileSize = sz, m_UncompressedFileSize = uncompressedSize,
      m_DataOffset = off, m_ToggleCompressed = False, m_TextureHeader = header,
      m_TextureChunks = texChunks, m_FileHash = hash name, m_DataOffsetWrite = 0\<rparr>"

text \<open>
  A folder owns its sub-folders and files. \<open>m_SubFoldersByName\<close> maps the first path
  component to a child; the child is shared with \<open>m_SubFolders\<close>, so the model stores its
  index there. The parent pointer is the position in the tree. \<open>m_OffsetWrite\<close> has no
  initialiser in the source; the model starts it at 0.
\<close>

datatype Folder = Folder
  (m_FolderName: string)
  (m_NameHash: BSAHash)
  (m_FileCount: BSAULong)
  (m_Offset: BSAHash)
  (m_OffsetWrite: BSAULong)
  (m_SubFolders: "Folder list")
  (m_SubFoldersByName: "(string \<times> nat) list")
  (m_Files: "File list")

text \<open>\<open>Folder::Folder()\<close>; \<open>ULONG_MAX\<close> is \<open>0xFFFFFFFF\<close>.\<close>

definition Folder_new :: "(string \<Rightarrow> BSAHash) \<Rightarrow> Folder" where
  "Folder_new hash = Folder [] (hash []) 0 0xFFFFFFFF 0 [] [] []"

record Archive =
  m_File :: fstream
  m_RootFolder :: Folder
  m_ArchiveFlags :: BSAULong
  m_Type :: ArchiveType

text \<open>\<open>Archive::Archive()\<close>; \<open>TYPE_SKYRIM\<close> is \<open>TYPE_FALLOUT3\<close>.\<close>

definition Archive_new :: "(string \<Rightarrow> BSAHash) \<Rightarrow> Archive" where
  "Archive_new hash =
     \<lparr>m_File = closed_stream, m_RootFolder = Folder_new hash,
      m_ArchiveFlags = FLAG_HASDIRNAMES OR FLAG_HASFILENAMES, m_Type = TYPE_FALLOUT3\<rparr>"

definition defaultCompressed :: "Archive \<Rightarrow> bool" where
  "defaultCompressed a \<longleftrightarrow> (m_ArchiveFlags a AND FLAG_DEFAULTCOMPRESSED) \<noteq> 0"

definition namePrefixed :: "Archive \<Rightarrow> bool" where
  "namePrefixed a \<longleftrightarrow>
     m_Type a \<noteq> TYPE_OBLIVION \<and> (m_ArchiveFlags a AND FLAG_NAMEPREFIXED) \<noteq> 0"

text \<open>\<open>Archive::compressed\<close>; \<open>^\<close> on two \<open>bool\<close>s is true when they differ.\<close>

definition compressed :: "Archive \<Rightarrow> File \<Rightarrow> bool" where
  "compressed a file =
     (if m_Type a \<noteq> TYPE_FALLOUT4 then compressToggled file \<noteq> defaultCompressed a
      else m_FileSize file > 0)"

section \<open>Reading an archive\<close>

text \<open>
  \<open>Archive::read\<close>. \<open>fs\<close> maps the names of the files that can be opened to their bytes.
  The function opens the file, reads the header inside an inner \<open>try\<close> whose handler
  re-throws a \<open>data_invalid_exception\<close> with the file name added, stores flags and type,
  and runs the record readers of the archive type (lines 165 to 296). These build the
  tree with the reading constructor of \<open>File\<close> and with \<open>readFileName\<close>, both in
  bsafile.cpp, which is not among the sources; they are the parameter \<open>readRecords\<close>
  here, which gets the header and the archive with stream, flags and type set. The outer
  handler catches \<open>std::ios_base::failure\<close> only and turns it into
  \<open>ERROR_INVALIDDATA\<close>; every other exception leaves \<open>read\<close>.
\<close>

type_synonym record_readers = "Header \<Rightarrow> bool \<Rightarrow> Archive \<Rightarrow> (exn + EErrorCode) \<times> Archive"

definition catch_ios_base_failure ::
  "(exn + EErrorCode) \<times> Archive \<Rightarrow> (exn + EErrorCode) \<times> Archive" where
  "catch_ios_base_failure r =
     (case r of
        (Inl ios_base_failure, a') \<Rightarrow> (Inr ERROR_INVALIDDATA, a')
      | _ \<Rightarrow> r)"

definition read ::
  "record_readers \<Rightarrow> (string \<rightharpoonup> 8 word list) \<Rightarrow> string \<Rightarrow> bool \<Rightarrow> Archive \<Rightarrow>
   (exn + EErrorCode) \<times> Archive" where
  "read readRecords fs fileName testHashes a =
     (case fs fileName of
        None \<Rightarrow> (Inr ERROR_FILENOTFOUND, a)
      | Some bytes \<Rightarrow>
          catch_ios_base_failure
            (case readHeader (open_stream bytes) of
               (Inl (data_invalid_exception e), s) \<Rightarrow>
                 (Inl (data_invalid_exception (WithFileName e fileName)), a\<lparr>m_File := s\<rparr>)
             | (Inl other, s) \<Rightarrow> (Inl other, a\<lparr>m_File := s\<rparr>)
             | (Inr header, s) \<Rightarrow>
                 readRecords header testHashes
                   (a\<lparr>m_File := s, m_ArchiveFlags := archiveFlags header,
                      m_Type := type header\<rparr>)))"

text \<open>The magic number and the version id as they lie in the first eight bytes of a file.\<close>

definition header_magic :: "8 word list \<Rightarrow> 32 word" where
  "header_magic bytes = of_nat (le_nat (take 4 bytes))"

definition header_version :: "8 word list \<Rightarrow> 32 word" where
  "header_version bytes = of_nat (le_nat (take 4 (drop 4 bytes)))"

text \<open>Inputs for the examples: a hash function, record readers that read nothing, and files.\<close>

definition hash0 :: "string \<Rightarrow> BSAHash" where
  "hash0 s = 0"

definition no_records :: record_readers where
  "no_records h t a = (Inr ERROR_NONE, a)"

definition bad_magic_file :: "8 word list" where
  "bad_magic_file = [0x50, 0x4B, 0x03, 0x04, 0x14, 0, 0, 0]"

definition bad_version_file :: "8 word list" where
  "bad_version_file = [0x42, 0x53, 0x41, 0x00, 0x6A, 0, 0, 0]"

definition oblivion_header_file :: "8 word list" where
  "oblivion_header_file =
     [0x42, 0x53, 0x41, 0x00,  0x67, 0, 0, 0,  0x24, 0, 0, 0,  0x07, 0x07, 0, 0,
      0, 0, 0, 0,  0, 0, 0, 0,  0, 0, 0, 0,  0, 0, 0, 0,  0, 0, 0, 0]"

definition starfield_header_file :: "8 word list" where
  "starfield_header_file =
     [0x42, 0x54, 0x44, 0x58,  0x02, 0, 0, 0,  0x47, 0x4E, 0x52, 0x4C,  0, 0, 0, 0,
      0x20, 0, 0, 0, 0, 0, 0, 0,  0, 0, 0, 0, 0, 0, 0, 0]"

section \<open>The DDS header of a texture entry\<close>

text \<open>
  The structures and constants of DirectXTex's DDS.h and of dxgiformat.h, which the
  repository includes and does not contain; the values are those of the published
  headers. A \<open>DDS_HEADER\<close> has 124 bytes, a \<open>DDS_PIXELFORMAT\<close> 32, a
  \<open>DDS_HEADER_DXT10\<close> 20.
\<close>

record DDS_PIXELFORMAT =
  pf_size :: "32 word"
  pf_flags :: "32 word"
  fourCC :: "32 word"
  RGBBitCount :: "32 word"
  RBitMask :: "32 word"
  GBitMask :: "32 word"
  BBitMask :: "32 word"
  ABitMask :: "32 word"

record DDS_HEADER =
  dds_size :: "32 word"
  dds_flags :: "32 word"
  dds_height :: "32 word"
  dds_width :: "32 word"
  pitchOrLinearSize :: "32 word"
  depth :: "32 word"
  mipMapCount :: "32 word"
  reserved1 :: "32 word list"
  ddspf :: DDS_PIXELFORMAT
  caps :: "32 word"
  caps2 :: "32 word"
  caps3 :: "32 word"
  caps4 :: "32 word"
  reserved2 :: "32 word"

record DDS_HEADER_DXT10 =
  dxgiFormat :: nat
  resourceDimension :: "32 word"
  miscFlag :: "32 word"
  arraySize :: "32 word"
  miscFlags2 :: "32 word"

definition DDS_HEADER_FLAGS_TEXTURE :: "32 word" where "DDS_HEADER_FLAGS_TEXTURE = 0x00001007"
definition DDS_HEADER_FLAGS_MIPMAP :: "32 word" where "DDS_HEADER_FLAGS_MIPMAP = 0x00020000"
definition DDS_HEADER_FLAGS_LINEARSIZE :: "32 word" where
  "DDS_HEADER_FLAGS_LINEARSIZE = 0x00080000"
definition DDS_SURFACE_FLAGS_TEXTURE :: "32 word" where "DDS_SURFACE_FLAGS_TEXTURE = 0x00001000"
definition DDS_SURFACE_FLAGS_MIPMAP :: "32 word" where "DDS_SURFACE_FLAGS_MIPMAP = 0x00400008"
definition DDS_CUBEMAP_ALLFACES :: "32 word" where "DDS_CUBEMAP_ALLFACES = 0x0000FE00"
definition DDS_DIMENSION_TEXTURE2D :: "32 word" where "DDS_DIMENSION_TEXTURE2D = 3"
definition DDS_FOURCC :: "32 word" where "DDS_FOURCC = 0x00000004"
definition DDS_RGB :: "32 word" where "DDS_RGB = 0x00000040"
definition DDS_RGBA :: "32 word" where "DDS_RGBA = 0x00000041"
definition DDS_LUMINANCE :: "32 word" where "DDS_LUMINANCE = 0x00020000"

definition DXGI_FORMAT_R8G8B8A8_UNORM :: nat where "DXGI_FORMAT_R8G8B8A8_UNORM = 28"
definition DXGI_FORMAT_R8_UNORM :: nat where "DXGI_FORMAT_R8_UNORM = 61"
definition DXGI_FORMAT_BC1_UNORM :: nat where "DXGI_FORMAT_BC1_UNORM = 71"
definition DXGI_FORMAT_BC1_UNORM_SRGB :: nat where "DXGI_FORMAT_BC1_UNORM_SRGB = 72"
definition DXGI_FORMAT_BC2_UNORM :: nat where "DXGI_FORMAT_BC2_UNORM = 74"
definition DXGI_FORMAT_BC2_UNORM_SRGB :: nat where "DXGI_FORMAT_BC2_UNORM_SRGB = 75"
definition DXGI_FORMAT_BC3_UNORM :: nat where "DXGI_FORMAT_BC3_UNORM = 77"
definition DXGI_FORMAT_BC3_UNORM_SRGB :: nat where "DXGI_FORMAT_BC3_UNORM_SRGB = 78"
definition DXGI_FORMAT_BC4_UNORM :: nat where "DXGI_FORMAT_BC4_UNORM = 80"
definition DXGI_FORMAT_BC5_UNORM :: nat where "DXGI_FORMAT_BC5_UNORM = 83"
definition DXGI_FORMAT_BC5_SNORM :: nat where "DXGI_FORMAT_BC5_SNORM = 84"
definition DXGI_FORMAT_B8G8R8A8_UNORM :: nat where "DXGI_FORMAT_B8G8R8A8_UNORM = 87"
definition DXGI_FORMAT_B8G8R8X8_UNORM :: nat where "DXGI_FORMAT_B8G8R8X8_UNORM = 88"
definition DXGI_FORMAT_BC7_UNORM :: nat where "DXGI_FORMAT_BC7_UNORM = 98"
definition DXGI_FORMAT_BC7_UNORM_SRGB :: nat where "DXGI_FORMAT_BC7_UNORM_SRGB = 99"

text \<open>\<open>MAKEFOURCC(ch0, ch1, ch2, ch3)\<close>, the four characters in little-endian order.\<close>

definition MAKEFOURCC :: "char \<Rightarrow> char \<Rightarrow> char \<Rightarrow> char \<Rightarrow> 32 word" where
  "MAKEFOURCC c0 c1 c2 c3 =
     of_char c0 OR push_bit 8 (of_char c1) OR push_bit 16 (of_char c2) OR
     push_bit 24 (of_char c3)"

definition pixelformat :: "32 word \<Rightarrow> 32 word \<Rightarrow> 32 word \<Rightarrow> 32 word \<Rightarrow> 32 word \<Rightarrow> 32 word \<Rightarrow>
    32 word \<Rightarrow> DDS_PIXELFORMAT" where
  "pixelformat fl cc bits r g b al =
     \<lparr>pf_size = 32, pf_flags = fl, fourCC = cc, RGBBitCount = bits, RBitMask = r,
      GBitMask = g, BBitMask = b, ABitMask = al\<rparr>"

definition DDSPF_DXT1 :: DDS_PIXELFORMAT where
  "DDSPF_DXT1 = pixelformat DDS_FOURCC (MAKEFOURCC CHR ''D'' CHR ''X'' CHR ''T'' CHR ''1'') 0 0 0 0 0"
definition DDSPF_DXT3 :: DDS_PIXELFORMAT where
  "DDSPF_DXT3 = pixelformat DDS_FOURCC (MAKEFOURCC CHR ''D'' CHR ''X'' CHR ''T'' CHR ''3'') 0 0 0 0 0"
definition DDSPF_DXT5 :: DDS_PIXELFORMAT where
  "DDSPF_DXT5 = pixelformat DDS_FOURCC (MAKEFOURCC CHR ''D'' CHR ''X'' CHR ''T'' CHR ''5'') 0 0 0 0 0"
definition DDSPF_BC4_UNORM :: DDS_PIXELFORMAT where
  "DDSPF_BC4_UNORM =
     pixelformat DDS_FOURCC (MAKEFOURCC CHR ''B'' CHR ''C'' CHR ''4'' CHR ''U'') 0 0 0 0 0"
definition DDSPF_BC5_SNORM :: DDS_PIXELFORMAT where
  "DDSPF_BC5_SNORM =
     pixelformat DDS_FOURCC (MAKEFOURCC CHR ''B'' CHR ''C'' CHR ''5'' CHR ''S'') 0 0 0 0 0"
definition DDSPF_DX10 :: DDS_PIXELFORMAT where
  "DDSPF_DX10 = pixelformat DDS_FOURCC (MAKEFOURCC CHR ''D'' CHR ''X'' CHR ''1'' CHR ''0'') 0 0 0 0 0"
definition DDSPF_A8R8G8B8 :: DDS_PIXELFORMAT where
  "DDSPF_A8R8G8B8 = pixelformat DDS_RGBA 0 32 0x00ff0000 0x0000ff00 0x000000ff 0xff000000"
definition DDSPF_A8B8G8R8 :: DDS_PIXELFORMAT where
  "DDSPF_A8B8G8R8 = pixelformat DDS_RGBA 0 32 0x000000ff 0x0000ff00 0x00ff0000 0xff000000"
definition DDSPF_X8B8G8R8 :: DDS_PIXELFORMAT where
  "DDSPF_X8B8G8R8 = pixelformat DDS_RGB 0 32 0x000000ff 0x0000ff00 0x00ff0000 0"
definition DDSPF_L8 :: DDS_PIXELFORMAT where
  "DDSPF_L8 = pixelformat DDS_LUMINANCE 0 8 0xff 0 0 0"

text \<open>Value initialisation \<open>= {}\<close>: every member zero.\<close>

definition DDS_PIXELFORMAT_zero :: DDS_PIXELFORMAT where
  "DDS_PIXELFORMAT_zero =
     \<lparr>pf_size = 0, pf_flags = 0, fourCC = 0, RGBBitCount = 0, RBitMask = 0, GBitMask = 0,
      BBitMask = 0, ABitMask = 0\<rparr>"

definition DDS_HEADER_zero :: DDS_HEADER where
  "DDS_HEADER_zero =
     \<lparr>dds_size = 0, dds_flags = 0, dds_height = 0, dds_width = 0, pitchOrLinearSize = 0,
      depth = 0, mipMapCount = 0, reserved1 = replicate 11 0, ddspf = DDS_PIXELFORMAT_zero,
      caps = 0, caps2 = 0, caps3 = 0, caps4 = 0, reserved2 = 0\<rparr>"

definition DDS_HEADER_DXT10_zero :: DDS_HEADER_DXT10 where
  "DDS_HEADER_DXT10_zero =
     \<lparr>dxgiFormat = 0, resourceDimension = 0, miscFlag = 0, arraySize = 0, miscFlags2 = 0\<rparr>"

text \<open>
  \<open>width * height\<close> is computed in \<open>int\<close> after integer promotion and stored in a 32-bit
  unsigned field. The product of two 16-bit values can exceed \<open>INT_MAX\<close>, which is
  undefined in C++; the model wraps, as the compiled code does, and divides the signed
  value towards zero.
\<close>

definition area :: "FO4TextureHeader \<Rightarrow> int" where
  "area th = signed_take_bit 31 (uint (width th) * uint (height th))"

definition int_div :: "int \<Rightarrow> int \<Rightarrow> int" where
  "int_div x y = sgn x * sgn y * (\<bar>x\<bar> div \<bar>y\<bar>)"

text \<open>
  \<open>Archive::getDDSHeader\<close>. The references \<open>DX10Header\<close> and \<open>isDX10\<close> are arguments
  and results. \<open>DDS_switch\<close> is the \<open>switch\<close> on the format (lines 513 to 589), applied
  to the header \<open>d\<close> that the statements before it have filled; its \<open>default\<close> case
  returns the value-initialised header. \<open>unknown2\<close> is an unsigned char, promoted to
  \<open>int\<close> for the comparison with 2049.
\<close>

definition DDS_switch ::
  "DDS_HEADER \<Rightarrow> FO4TextureHeader \<Rightarrow> DDS_HEADER_DXT10 \<Rightarrow> bool \<Rightarrow>
   DDS_HEADER \<times> DDS_HEADER_DXT10 \<times> bool" where
  "DDS_switch d th DX10Header isDX10 =
     (let fmt = format th in
      if fmt = DXGI_FORMAT_BC1_UNORM \<or> fmt = DXGI_FORMAT_BC1_UNORM_SRGB then
        (d\<lparr>ddspf := DDSPF_DXT1, pitchOrLinearSize := word_of_int (int_div (area th) 2)\<rparr>,
         DX10Header, isDX10)
      else if fmt = DXGI_FORMAT_BC2_UNORM \<or> fmt = DXGI_FORMAT_BC2_UNORM_SRGB then
        (d\<lparr>ddspf := DDSPF_DXT3, pitchOrLinearSize := word_of_int (area th)\<rparr>,
         DX10Header, isDX10)
      else if fmt = DXGI_FORMAT_BC3_UNORM \<or> fmt = DXGI_FORMAT_BC3_UNORM_SRGB then
        (d\<lparr>ddspf := DDSPF_DXT5, pitchOrLinearSize := word_of_int (area th)\<rparr>,
         DX10Header, isDX10)
      else if fmt = DXGI_FORMAT_BC4_UNORM then
        (d\<lparr>ddspf := DDSPF_BC4_UNORM, pitchOrLinearSize := word_of_int (area th)\<rparr>,
         DX10Header, isDX10)
      else if fmt = DXGI_FORMAT_BC5_UNORM then
        (d\<lparr>ddspf := (ddspf d)\<lparr>pf_flags := DDS_FOURCC,
                                 fourCC := MAKEFOURCC CHR ''A'' CHR ''T'' CHR ''I'' CHR ''2''\<rparr>,
           pitchOrLinearSize := word_of_int (area th)\<rparr>,
         DX10Header, isDX10)
      else if fmt = DXGI_FORMAT_BC5_SNORM then
        (d\<lparr>ddspf := DDSPF_BC5_SNORM, pitchOrLinearSize := word_of_int (area th)\<rparr>,
         DX10Header, isDX10)
      else if fmt = DXGI_FORMAT_BC7_UNORM \<or> fmt = DXGI_FORMAT_BC7_UNORM_SRGB then
        (d\<lparr>ddspf := DDSPF_DX10, pitchOrLinearSize := word_of_int (area th)\<rparr>,
         DX10Header\<lparr>dxgiFormat := fmt\<rparr>, True)
      else if fmt = DXGI_FORMAT_R8G8B8A8_UNORM then
        (d\<lparr>ddspf := DDSPF_A8R8G8B8, pitchOrLinearSize := word_of_int (area th * 4)\<rparr>,
         DX10Header, isDX10)
      else if fmt = DXGI_FORMAT_B8G8R8A8_UNORM then
        (d\<lparr>ddspf := DDSPF_A8B8G8R8, pitchOrLinearSize := word_of_int (area th * 4)\<rparr>,
         DX10Header, isDX10)
      else if fmt = DXGI_FORMAT_B8G8R8X8_UNORM then
        (d\<lparr>ddspf := DDSPF_X8B8G8R8\<rparr>, DX10Header, isDX10)
      else if fmt = DXGI_FORMAT_R8_UNORM then
        (d\<lparr>ddspf := DDSPF_L8, pitchOrLinearSize := word_of_int (area th)\<rparr>,
         DX10Header, isDX10)
      else (DDS_HEADER_zero, DX10Header, isDX10))"

definition getDDSHeader ::
  "File \<Rightarrow> DDS_HEADER_DXT10 \<Rightarrow> bool \<Rightarrow> DDS_HEADER \<times> DDS_HEADER_DXT10 \<times> bool" where
  "getDDSHeader file DX10Header isDX10 =
     (let th = m_TextureHeader file;
          d0 = DDS_HEADER_zero
                 \<lparr>dds_size := 124,
                  dds_flags := DDS_HEADER_FLAGS_TEXTURE OR DDS_HEADER_FLAGS_LINEARSIZE OR
                               DDS_HEADER_FLAGS_MIPMAP,
                  dds_height := ucast (height th),
                  dds_width := ucast (width th),
                  mipMapCount := ucast (mipCount th),
                  ddspf := DDS_PIXELFORMAT_zero\<lparr>pf_size := 32\<rparr>,
                  caps := DDS_SURFACE_FLAGS_TEXTURE OR DDS_SURFACE_FLAGS_MIPMAP\<rparr>;
          d = (if uint (unknown2 th) = 2049 then d0\<lparr>caps2 := DDS_CUBEMAP_ALLFACES\<rparr> else d0)
      in DDS_switch d th DX10Header isDX10)"

definition getDX10Header :: "DDS_HEADER_DXT10 \<Rightarrow> File \<Rightarrow> DDS_HEADER \<Rightarrow> DDS_HEADER_DXT10" where
  "getDX10Header DX10Header file DDSHeader =
     DX10Header\<lparr>resourceDimension := DDS_DIMENSION_TEXTURE2D, miscFlag := 0,
                arraySize := 1, miscFlags2 := 0\<rparr>"

text \<open>The formats that \<open>getDDSHeader\<close> has a case for.\<close>

definition supported_format :: "nat \<Rightarrow> bool" where
  "supported_format fmt \<longleftrightarrow>
     fmt \<in> {DXGI_FORMAT_BC1_UNORM, DXGI_FORMAT_BC1_UNORM_SRGB, DXGI_FORMAT_BC2_UNORM,
            DXGI_FORMAT_BC2_UNORM_SRGB, DXGI_FORMAT_BC3_UNORM, DXGI_FORMAT_BC3_UNORM_SRGB,
            DXGI_FORMAT_BC4_UNORM, DXGI_FORMAT_BC5_UNORM, DXGI_FORMAT_BC5_SNORM,
            DXGI_FORMAT_BC7_UNORM, DXGI_FORMAT_BC7_UNORM_SRGB, DXGI_FORMAT_R8G8B8A8_UNORM,
            DXGI_FORMAT_B8G8R8A8_UNORM, DXGI_FORMAT_B8G8R8X8_UNORM, DXGI_FORMAT_R8_UNORM}"

text \<open>
  The headers that the extraction functions emit for a texture entry (lines 624 to 640,
  753 to 769 and 1053 to 1072, the same code three times): the DDS header, and the DX10
  extension when \<open>getDDSHeader\<close> has set \<open>isDX10\<close>.
\<close>

definition texture_headers :: "File \<Rightarrow> DDS_HEADER \<times> DDS_HEADER_DXT10 option" where
  "texture_headers file =
     (case getDDSHeader file DDS_HEADER_DXT10_zero False of
        (DDSHeaderData, DX10HeaderData, isDX10) \<Rightarrow>
          (DDSHeaderData,
           if isDX10 then Some (getDX10Header DX10HeaderData file DDSHeaderData) else None))"

text \<open>The bytes of the structures in memory, as \<open>memcpy\<close> and \<open>writeType\<close> see them.\<close>

fun le_bytes :: "nat \<Rightarrow> nat \<Rightarrow> 8 word list" where
  "le_bytes 0 v = []"
| "le_bytes (Suc n) v = of_nat (v mod 256) # le_bytes n (v div 256)"

definition u32_bytes :: "32 word \<Rightarrow> 8 word list" where
  "u32_bytes w = le_bytes 4 (unat w)"

definition u64_bytes :: "64 word \<Rightarrow> 8 word list" where
  "u64_bytes w = le_bytes 8 (unat w)"

definition string_bytes :: "string \<Rightarrow> 8 word list" where
  "string_bytes str = map of_char str"

definition bytes_string :: "8 word list \<Rightarrow> string" where
  "bytes_string bs = map (\<lambda>b. char_of (unat b)) bs"

definition DDS_PIXELFORMAT_bytes :: "DDS_PIXELFORMAT \<Rightarrow> 8 word list" where
  "DDS_PIXELFORMAT_bytes pf =
     concat (map u32_bytes [pf_size pf, pf_flags pf, fourCC pf, RGBBitCount pf, RBitMask pf,
                            GBitMask pf, BBitMask pf, ABitMask pf])"

definition DDS_HEADER_bytes :: "DDS_HEADER \<Rightarrow> 8 word list" where
  "DDS_HEADER_bytes d =
     concat (map u32_bytes [dds_size d, dds_flags d, dds_height d, dds_width d,
                            pitchOrLinearSize d, depth d, mipMapCount d]) @
     concat (map u32_bytes (reserved1 d)) @
     DDS_PIXELFORMAT_bytes (ddspf d) @
     concat (map u32_bytes [caps d, caps2 d, caps3 d, caps4 d, reserved2 d])"

definition DDS_HEADER_DXT10_bytes :: "DDS_HEADER_DXT10 \<Rightarrow> 8 word list" where
  "DDS_HEADER_DXT10_bytes x =
     le_bytes 4 (dxgiFormat x) @
     concat (map u32_bytes [resourceDimension x, miscFlag x, arraySize x, miscFlags2 x])"

definition write_texture_headers :: "File \<Rightarrow> 8 word list \<Rightarrow> 8 word list" where
  "write_texture_headers file outFile =
     (case texture_headers file of
        (DDSHeaderData, ext) \<Rightarrow>
          outFile @ string_bytes ''DDS '' @ DDS_HEADER_bytes DDSHeaderData @
          (case ext of None \<Rightarrow> [] | Some DX10HeaderData \<Rightarrow> DDS_HEADER_DXT10_bytes DX10HeaderData))"

section \<open>The folder tree\<close>

text \<open>Assignments to the members of a folder.\<close>

fun set_FolderName :: "string \<Rightarrow> Folder \<Rightarrow> Folder" where
  "set_FolderName n (Folder _ h c off ow subs byName files) = Folder n h c off ow subs byName files"

fun set_NameHash :: "BSAHash \<Rightarrow> Folder \<Rightarrow> Folder" where
  "set_NameHash h (Folder n _ c off ow subs byName files) = Folder n h c off ow subs byName files"

fun set_OffsetWrite :: "BSAULong \<Rightarrow> Folder \<Rightarrow> Folder" where
  "set_OffsetWrite ow (Folder n h c off _ subs byName files) = Folder n h c off ow subs byName files"

fun set_SubFolders :: "Folder list \<Rightarrow> Folder \<Rightarrow> Folder" where
  "set_SubFolders subs (Folder n h c off ow _ byName files) = Folder n h c off ow subs byName files"

fun set_Files :: "File list \<Rightarrow> Folder \<Rightarrow> Folder" where
  "set_Files files (Folder n h c off ow subs byName _) = Folder n h c off ow subs byName files"

text \<open>
  \<open>m_SubFolders.push_back(child); m_SubFoldersByName[firstStr] = child\<close>: the child
  goes to the end of the list, and the map entry of \<open>firstStr\<close> is set to it.
\<close>

fun push_SubFolder :: "string \<Rightarrow> Folder \<Rightarrow> Folder \<Rightarrow> Folder" where
  "push_SubFolder firstStr child (Folder n h c off ow subs byName files) =
     Folder n h c off ow (subs @ [child]) (AList.update firstStr (length subs) byName) files"

text \<open>\<open>result->m_FileCount++; result->m_Files.push_back(file)\<close>.\<close>

fun push_File :: "File \<Rightarrow> Folder \<Rightarrow> Folder" where
  "push_File file (Folder n h c off ow subs byName files) =
     Folder n h (c + 1) off ow subs byName (files @ [file])"

text \<open>
  \<open>std::filesystem::path\<close> on Windows, for the relative paths of an archive: the
  components are the parts between the separators \<open>/\<close> and \<open>\\<close>, empty parts left
  out. A path that ends in a separator (or is empty) has the empty \<open>filename()\<close>, and
  its \<open>parent_path()\<close> keeps all its components (\<open>a/b/\<close> has the parent \<open>a/b\<close>);
  otherwise \<open>filename()\<close> is the last component and \<open>parent_path()\<close> the components
  before it. The path that \<open>operator/=\<close> builds from components prints them with \<open>\\<close>
  in between and has these components again.
\<close>

definition is_separator :: "char \<Rightarrow> bool" where
  "is_separator ch \<longleftrightarrow> ch = CHR ''/'' \<or> ch = CHR 0x5C"

fun split_path :: "string \<Rightarrow> string list" where
  "split_path [] = [[]]"
| "split_path (ch # cs) =
     (if is_separator ch then [] # split_path cs
      else (case split_path cs of [] \<Rightarrow> [[ch]] | x # xs \<Rightarrow> (ch # x) # xs))"

definition path_components :: "string \<Rightarrow> string list" where
  "path_components p = filter (\<lambda>x. x \<noteq> []) (split_path p)"

fun path_string :: "string list \<Rightarrow> string" where
  "path_string [] = []"
| "path_string [x] = x"
| "path_string (x # y # ys) = x @ [CHR 0x5C] @ path_string (y # ys)"

definition has_filename :: "string \<Rightarrow> bool" where
  "has_filename p \<longleftrightarrow> p \<noteq> [] \<and> \<not> is_separator (last p)"

definition filename :: "string \<Rightarrow> string" where
  "filename p =
     (if has_filename p \<and> path_components p \<noteq> [] then last (path_components p) else [])"

definition parent_path :: "string \<Rightarrow> string list" where
  "parent_path p =
     (if has_filename p then butlast (path_components p) else path_components p)"

text \<open>
  \<open>Folder::addOrFindFolderInt\<close>, on the components of \<open>folder->m_Name\<close>: \<open>firstStr\<close> is
  the first one and \<open>remaining\<close> the rest. The result is the folder \<open>this\<close> after the
  call and the place of the returned folder below it, as the list of indices into
  \<open>m_SubFolders\<close> that lead there. A path without components makes the source
  dereference \<open>path.begin()\<close> at the end, which is undefined; a map entry that points
  to no child cannot arise in the source, where the map holds the child itself.
\<close>

fun addOrFindFolderInt ::
  "(string \<Rightarrow> BSAHash) \<Rightarrow> Folder \<Rightarrow> string list \<Rightarrow> Folder \<Rightarrow> exn + Folder \<times> nat list" where
  "addOrFindFolderInt hash this [] folder = Inl undefined_behaviour"
| "addOrFindFolderInt hash this (firstStr # remaining) folder =
     (case map_of (m_SubFoldersByName this) firstStr of
        Some i \<Rightarrow>
          if i < length (m_SubFolders this) then
            (if remaining \<noteq> [] then
               (case addOrFindFolderInt hash (m_SubFolders this ! i) remaining
                       (set_FolderName (path_string remaining) folder) of
                  Inl e \<Rightarrow> Inl e
                | Inr (child, p) \<Rightarrow>
                    Inr (set_SubFolders ((m_SubFolders this)[i := child]) this, i # p))
             else Inr (this, [i]))
          else Inl undefined_behaviour
      | None \<Rightarrow>
          if remaining = [] then
            Inr (push_SubFolder firstStr folder this, [length (m_SubFolders this)])
          else
            (case addOrFindFolderInt hash (set_FolderName firstStr (Folder_new hash)) remaining
                    (set_FolderName (path_string remaining) folder) of
               Inl e \<Rightarrow> Inl e
             | Inr (dummy, p) \<Rightarrow>
                 Inr (push_SubFolder firstStr dummy this, length (m_SubFolders this) # p)))"

text \<open>The folder at a place below \<open>this\<close>, and an assignment to it.\<close>

fun folder_at :: "Folder \<Rightarrow> nat list \<Rightarrow> Folder" where
  "folder_at this [] = this"
| "folder_at this (i # p) = folder_at (m_SubFolders this ! i) p"

fun update_at :: "nat list \<Rightarrow> (Folder \<Rightarrow> Folder) \<Rightarrow> Folder \<Rightarrow> Folder" where
  "update_at [] g this = g this"
| "update_at (i # p) g this =
     set_SubFolders ((m_SubFolders this)[i := update_at p g (m_SubFolders this ! i)]) this"

text \<open>
  \<open>Folder::addFolderFromFile\<close>: the folder \<open>this\<close> after the call and the place of the
  folder that received the file.
\<close>

definition addFolderFromFile ::
  "(string \<Rightarrow> BSAHash) \<Rightarrow> Folder \<Rightarrow> string \<Rightarrow> BSAUInt \<Rightarrow> BSAHash \<Rightarrow> BSAUInt \<Rightarrow>
   FO4TextureHeader \<Rightarrow> FO4TextureChunk list \<Rightarrow> exn + Folder \<times> nat list" where
  "addFolderFromFile hash this filePath sz off uncompressedSize header texChunks =
     (let tempFolder = set_FolderName (path_string (parent_path filePath))
                         (set_NameHash (hash filePath) (Folder_new hash))
      in case addOrFindFolderInt hash this (parent_path filePath) tempFolder of
           Inl e \<Rightarrow> Inl e
         | Inr (this', result) \<Rightarrow>
             Inr (update_at result
                    (push_File (File_new hash (filename filePath) sz off uncompressedSize
                                  header texChunks))
                    this',
                  result))"

text \<open>
  The folder that the map \<open>m_SubFoldersByName\<close> leads to along a list of path
  components, as a place; and the folders of a tree without their files.
\<close>

fun lookup_path :: "Folder \<Rightarrow> string list \<Rightarrow> nat list option" where
  "lookup_path this [] = Some []"
| "lookup_path this (firstStr # remaining) =
     (case map_of (m_SubFoldersByName this) firstStr of
        None \<Rightarrow> None
      | Some i \<Rightarrow>
          if i < length (m_SubFolders this)
          then map_option (Cons i) (lookup_path (m_SubFolders this ! i) remaining)
          else None)"

fun strip_files :: "Folder \<Rightarrow> Folder" where
  "strip_files (Folder n h c off ow subs byName files) =
     Folder n h 0 off ow (map strip_files subs) byName []"

section \<open>Extraction of a single file\<close>

text \<open>
  The compression libraries, parameters of the model. \<open>zlib_inflate input n\<close> stands for
  \<open>inflateInit2\<close> and the \<open>inflate\<close> loop of \<open>Archive::decompress\<close> on an output buffer
  of \<open>n\<close> bytes: the initialisation fails, the data is invalid, or the loop ends with
  the buffer filled. \<open>LZ4_decompress_safe input n\<close> and \<open>LZ4F_decompress input n\<close> give
  the content of the output buffer of \<open>n\<close> bytes after the call; the source ignores the
  return values of both.
\<close>

datatype zres = ZInitFailed | ZDataError | ZOutput "8 word list"

record codecs =
  zlib_inflate :: "8 word list \<Rightarrow> nat \<Rightarrow> zres"
  LZ4_decompress_safe :: "8 word list \<Rightarrow> nat \<Rightarrow> 8 word list"
  LZ4F_decompress :: "8 word list \<Rightarrow> nat \<Rightarrow> 8 word list"

text \<open>
  An output file opened with \<open>trunc\<close> and written front to back: the bytes written so
  far.
\<close>

type_synonym ofstream = "8 word list"

text \<open>
  \<open>new char[n]\<close> followed by \<open>m_File.read(buffer, n)\<close>. The bytes of the buffer that a
  short read does not fill are indeterminate in C++; the model holds zeros there.
\<close>

definition read_new_buffer :: "nat \<Rightarrow> fstream \<Rightarrow> 8 word list \<times> fstream" where
  "read_new_buffer n s =
     (case stream_read n s of (bs, s') \<Rightarrow> (bs @ replicate (n - length bs) 0, s'))"

text \<open>\<open>outFile.write(buffer, n)\<close> for a buffer that may be null.\<close>

definition write_buffer :: "8 word list option \<Rightarrow> nat \<Rightarrow> ofstream \<Rightarrow> exn + ofstream" where
  "write_buffer buffer n outFile =
     (if n = 0 then Inr outFile
      else case buffer of
        None \<Rightarrow> Inl undefined_behaviour
      | Some bs \<Rightarrow> if n \<le> length bs then Inr (outFile @ take n bs) else Inl undefined_behaviour)"

text \<open>
  Modelled from the spec: \<open>readBString\<close> of bsatypes.cpp, declared in bsatypes.h. A
  BString is a 1-byte length followed by that many bytes, with no terminator; a short
  read fails as in \<open>readType\<close>.
\<close>

definition readBString :: "string io" where
  "readBString =
     bindS readUChar (\<lambda>len s.
       case stream_read (unat len) s of (bs, s') \<Rightarrow>
         if failbit s' then (Inl (data_invalid_exception CantReadFromBsa), s')
         else (Inr (bytes_string bs), s'))"

definition CHUNK_SIZE :: nat where
  "CHUNK_SIZE = 128 * 1024"

text \<open>
  The loop at the end of \<open>extractDirect\<close> (lines 664 to 677): it copies \<open>m_FileSize\<close>
  more bytes from the current position of the archive to the output, through one buffer
  of \<open>CHUNK_SIZE\<close> bytes that keeps its old content where a read comes up short.
\<close>

function copy_loop :: "nat \<Rightarrow> 8 word list \<Rightarrow> ofstream \<Rightarrow> fstream \<Rightarrow> ofstream \<times> fstream" where
  "copy_loop sizeLeft inBuffer outFile f =
     (if sizeLeft > 0 then
        (let chunkSize = min sizeLeft CHUNK_SIZE;
             r = stream_read chunkSize f;
             inBuffer' = fst r @ drop (length (fst r)) inBuffer
         in copy_loop (sizeLeft - chunkSize) inBuffer' (outFile @ take chunkSize inBuffer') (snd r))
      else (outFile, f))"
  by pat_completeness auto
termination
  by (relation "measure (\<lambda>(sizeLeft, inBuffer, outFile, f). sizeLeft)")
     (auto simp: CHUNK_SIZE_def)

declare copy_loop.simps [simp del]

text \<open>The loop over the texture chunks in \<open>extractDirect\<close> (lines 642 to 647).\<close>

fun direct_chunks :: "FO4TextureChunk list \<Rightarrow> ofstream \<Rightarrow> fstream \<Rightarrow> ofstream \<times> fstream" where
  "direct_chunks [] outFile f = (outFile, f)"
| "direct_chunks (c # cs) outFile f =
     (case read_new_buffer (unat (unpackedSize c)) f of
        (chunk, f') \<Rightarrow> direct_chunks cs (outFile @ chunk) f')"

text \<open>
  The name prefix of the older layout, as \<open>extractDirect\<close> and the two older-layout
  branches of \<open>extractCompressed\<close> consume it: the size that is left, or the early exit
  when the prefix is not shorter than the size. \<open>readFiles\<close> does the same on a
  \<open>size_t\<close>.
\<close>

definition skip_name_prefix ::
  "Archive \<Rightarrow> BSAULong \<Rightarrow> fstream \<Rightarrow> (exn + BSAULong option) \<times> fstream" where
  "skip_name_prefix a sz f =
     (if namePrefixed a then
        (case readBString f of
           (Inl e, f1) \<Rightarrow> (Inl e, f1)
         | (Inr fullName, f1) \<Rightarrow>
             if unat sz \<le> length fullName then (Inr None, f1)
             else (Inr (Some (sz - of_nat (length fullName + 1))), f1))
      else (Inr (Some sz), f))"

text \<open>
  \<open>Archive::extractDirect\<close>. The result is the status code or the exception, the output
  file and the archive stream. The first stage ends in an early \<open>return\<close>
  (\<open>Inr (Some result)\<close>) or falls through (\<open>Inr None\<close>) to the loop at the end.
\<close>

definition raw_copy ::
  "BSAULong \<Rightarrow> ofstream \<Rightarrow> fstream \<Rightarrow> (exn + EErrorCode option) \<times> ofstream \<times> fstream" where
  "raw_copy sz outFile f =
     (case read_new_buffer (unat sz) f of (buffer, f') \<Rightarrow> (Inr None, outFile @ buffer, f'))"

definition extractDirect ::
  "Archive \<Rightarrow> File \<Rightarrow> ofstream \<Rightarrow> (exn + EErrorCode) \<times> ofstream \<times> fstream" where
  "extractDirect a file outFile =
     (let result = ERROR_NONE in
      if m_FileSize file = 0 then (Inr result, outFile, m_File a)
      else
        let f0 = seekg (unat (m_DataOffset file)) (clear (m_File a)) in
        case
          (if is_ba2_type (m_Type a) then
             (if m_TextureChunks file = [] then
                raw_copy (m_UncompressedFileSize file) outFile f0
              else
                (case direct_chunks (m_TextureChunks file)
                        (write_texture_headers file outFile) f0 of
                   (out1, f1) \<Rightarrow> (Inr None, out1, f1)))
           else
             (case skip_name_prefix a (m_FileSize file) f0 of
                (Inl e, f1) \<Rightarrow> (Inl e, outFile, f1)
              | (Inr None, f1) \<Rightarrow> (Inr (Some result), outFile, f1)
              | (Inr (Some sz), f1) \<Rightarrow> raw_copy sz outFile f1))
        of
          (Inl e, out1, f1) \<Rightarrow> (Inl e, out1, f1)
        | (Inr (Some r), out1, f1) \<Rightarrow> (Inr r, out1, f1)
        | (Inr None, out1, f1) \<Rightarrow>
            (case copy_loop (unat (m_FileSize file)) (replicate CHUNK_SIZE 0) out1 f1 of
               (out2, f2) \<Rightarrow> (Inr result, out2, f2)))"

text \<open>
  \<open>Archive::decompress\<close>: the buffer (null when nothing was inflated), the status code
  and the output size, the last two passed by reference in the source. With
  \<open>outSize = 0\<close> the size is taken from the first four bytes of the input.
\<close>

definition decompress ::
  "codecs \<Rightarrow> 8 word list \<Rightarrow> BSAULong \<Rightarrow> EErrorCode \<Rightarrow> BSAULong \<Rightarrow>
   8 word list option \<times> EErrorCode \<times> BSAULong" where
  "decompress c inBuffer inSize result outSize =
     (case (if outSize = 0
            then (drop 4 inBuffer, inSize - 4, (of_nat (le_nat (take 4 inBuffer)) :: BSAULong))
            else (inBuffer, inSize, outSize)) of
        (inBuffer1, inSize1, outSize1) \<Rightarrow>
          if inSize1 = 0 \<or> outSize1 = 0 then (None, result, outSize1)
          else
            (case zlib_inflate c (take (unat inSize1) inBuffer1) (unat outSize1) of
               ZInitFailed \<Rightarrow> (None, ERROR_ZLIBINITFAILED, outSize1)
             | ZDataError \<Rightarrow> (None, ERROR_INVALIDDATA, outSize1)
             | ZOutput outBuffer \<Rightarrow> (Some outBuffer, result, outSize1)))"

text \<open>
  The loop over the texture chunks in \<open>extractCompressed\<close> (lines 771 to 790). The
  status code is shared by all iterations. Line 780 names \<open>fileInfo.file\<close>, which does
  not exist in this function; the model reads the chunk of \<open>file\<close>.
\<close>

fun compressed_chunks ::
  "codecs \<Rightarrow> ArchiveType \<Rightarrow> FO4TextureChunk list \<Rightarrow> EErrorCode \<Rightarrow> ofstream \<Rightarrow> fstream \<Rightarrow>
   (exn + EErrorCode) \<times> ofstream \<times> fstream" where
  "compressed_chunks c t [] result outFile f = (Inr result, outFile, f)"
| "compressed_chunks c t (ch # chs) result outFile f =
     (case read_new_buffer (unat (packedSize ch)) f of
        (chunk, f') \<Rightarrow>
          if t = TYPE_STARFIELD_LZ4_TEXTURE then
            compressed_chunks c t chs result
              (outFile @ take (unat (unpackedSize ch))
                           (LZ4_decompress_safe c chunk (unat (unpackedSize ch)))) f'
          else
            (case decompress c chunk (packedSize ch) result (unpackedSize ch) of
               (unpackedChunk, result', length') \<Rightarrow>
                 if result' = ERROR_NONE then
                   (case write_buffer unpackedChunk (unat length') outFile of
                      Inl e \<Rightarrow> (Inl e, outFile, f')
                    | Inr out' \<Rightarrow> compressed_chunks c t chs result' out' f')
                 else compressed_chunks c t chs result' outFile f'))"

definition inflate_and_write ::
  "codecs \<Rightarrow> 8 word list \<Rightarrow> BSAULong \<Rightarrow> BSAULong \<Rightarrow> ofstream \<Rightarrow> fstream \<Rightarrow>
   (exn + EErrorCode) \<times> ofstream \<times> fstream" where
  "inflate_and_write c inBuffer inSize len outFile f =
     (case decompress c inBuffer inSize ERROR_NONE len of
        (buffer, result, len') \<Rightarrow>
          if result = ERROR_NONE then
            (case write_buffer buffer (unat len') outFile of
               Inl e \<Rightarrow> (Inl e, outFile, f)
             | Inr out' \<Rightarrow> (Inr result, out', f))
          else (Inr result, outFile, f))"

text \<open>\<open>Archive::extractCompressed\<close>.\<close>

definition extractCompressed ::
  "codecs \<Rightarrow> Archive \<Rightarrow> File \<Rightarrow> ofstream \<Rightarrow> (exn + EErrorCode) \<times> ofstream \<times> fstream" where
  "extractCompressed c a file outFile =
     (let result = ERROR_NONE in
      if m_FileSize file = 0 then (Inr result, outFile, m_File a)
      else
        let f0 = seekg (unat (m_DataOffset file)) (clear (m_File a)) in
        if is_ba2_type (m_Type a) then
          (if m_TextureChunks file = [] then
             (case read_new_buffer (unat (m_FileSize file)) f0 of
                (inBuffer, f1) \<Rightarrow>
                  inflate_and_write c inBuffer (m_FileSize file) (m_UncompressedFileSize file)
                    outFile f1)
           else
             compressed_chunks c (m_Type a) (m_TextureChunks file) result
               (write_texture_headers file outFile) f0)
        else if m_Type a = TYPE_SKYRIMSE then
          (case skip_name_prefix a (m_FileSize file) f0 of
             (Inl e, f1) \<Rightarrow> (Inl e, outFile, f1)
           | (Inr None, f1) \<Rightarrow> (Inr result, outFile, f1)
           | (Inr (Some inSize), f1) \<Rightarrow>
               (case readUInt f1 of
                  (Inl e, f2) \<Rightarrow> (Inl e, outFile, f2)
                | (Inr outSize, f2) \<Rightarrow>
                    (case read_new_buffer (unat (inSize - 4)) f2 of
                       (inBuffer, f3) \<Rightarrow>
                         (Inr result,
                          outFile @ take (unat outSize)
                                      (LZ4F_decompress c inBuffer (unat outSize)),
                          f3))))
        else
          (case skip_name_prefix a (m_FileSize file) f0 of
             (Inl e, f1) \<Rightarrow> (Inl e, outFile, f1)
           | (Inr None, f1) \<Rightarrow> (Inr result, outFile, f1)
           | (Inr (Some inSize), f1) \<Rightarrow>
               (case read_new_buffer (unat inSize) f1 of
                  (inBuffer, f2) \<Rightarrow> inflate_and_write c inBuffer inSize 0 outFile f2)))"

text \<open>
  \<open>Archive::extract\<close> (\<open>extract\<close> is a keyword of Isabelle). \<open>writable\<close> tells
  whether the output file \<open>outputDirectory/name\<close> can be opened; the file is truncated,
  so the output starts empty.
\<close>

definition Archive_extract ::
  "codecs \<Rightarrow> (string \<Rightarrow> bool) \<Rightarrow> Archive \<Rightarrow> File \<Rightarrow> string \<Rightarrow>
   (exn + EErrorCode) \<times> ofstream \<times> fstream" where
  "Archive_extract c writable a file outputDirectory =
     (let fileName = outputDirectory @ ''/'' @ m_Name file in
      if \<not> writable fileName then (Inr ERROR_ACCESSFAILED, [], m_File a)
      else if compressed a file then extractCompressed c a file []
      else extractDirect a file [])"

section \<open>The reader of the bulk extraction\<close>

text \<open>
  The body of the loop of \<open>Archive::readFiles\<close> for one file (lines 869 to 949): it
  seeks to the data of the file, reads it into a buffer and hands file and buffer to the
  queue. The result is the queue entry, or \<open>None\<close> where the source says \<open>continue\<close>.
  The semaphores, the mutex and the queue are not part of the model. Allocations are
  taken to succeed.
\<close>

record FileInfo =
  fi_file :: File
  fi_data :: "(8 word list \<times> BSAULong) option"

text \<open>\<open>memcpy(dst + pos, src, n)\<close>, undefined from a null source or past either buffer.\<close>

definition memcpy :: "8 word list \<Rightarrow> nat \<Rightarrow> 8 word list option \<Rightarrow> nat \<Rightarrow> exn + 8 word list" where
  "memcpy dst pos src n =
     (if n = 0 then Inr dst
      else case src of
        None \<Rightarrow> Inl undefined_behaviour
      | Some bs \<Rightarrow>
          if pos + n \<le> length dst \<and> n \<le> length bs
          then Inr (take pos dst @ take n bs @ drop (pos + n) dst)
          else Inl undefined_behaviour)"

fun read_chunks ::
  "codecs \<Rightarrow> ArchiveType \<Rightarrow> FO4TextureChunk list \<Rightarrow> 8 word list \<Rightarrow> BSAULong \<Rightarrow> BSAULong \<Rightarrow>
   fstream \<Rightarrow> (exn + 8 word list \<times> BSAULong) \<times> fstream" where
  "read_chunks c t [] chunkData currentPos uncompressedFileSize f =
     (Inr (chunkData, uncompressedFileSize), f)"
| "read_chunks c t (ch # chs) chunkData currentPos uncompressedFileSize f =
     (if packedSize ch > 0 then
        (case read_new_buffer (unat (packedSize ch)) f of
           (chunk, f') \<Rightarrow>
             if t = TYPE_FALLOUT4 \<or> t = TYPE_STARFIELD then
               (case decompress c chunk (packedSize ch) ERROR_NONE (unpackedSize ch) of
                  (unpackedChunk, result, length') \<Rightarrow>
                    (case memcpy chunkData (unat currentPos) unpackedChunk (unat length') of
                       Inl e \<Rightarrow> (Inl e, f')
                     | Inr chunkData' \<Rightarrow>
                         read_chunks c t chs chunkData' (currentPos + length')
                           (uncompressedFileSize + length') f'))
             else
               (case memcpy chunkData (unat currentPos)
                       (Some (LZ4_decompress_safe c chunk (unat (unpackedSize ch))))
                       (unat (unpackedSize ch)) of
                  Inl e \<Rightarrow> (Inl e, f')
                | Inr chunkData' \<Rightarrow>
                    read_chunks c t chs chunkData' (currentPos + unpackedSize ch)
                      (uncompressedFileSize + unpackedSize ch) f'))
      else
        (case read_new_buffer (unat (unpackedSize ch)) f of
           (chunk, f') \<Rightarrow>
             (case memcpy chunkData (unat currentPos) (Some chunk) (unat (unpackedSize ch)) of
                Inl e \<Rightarrow> (Inl e, f')
              | Inr chunkData' \<Rightarrow>
                  read_chunks c t chs chunkData' (currentPos + unpackedSize ch)
                    uncompressedFileSize f')))"

definition readFiles_step ::
  "codecs \<Rightarrow> Archive \<Rightarrow> File \<Rightarrow> (exn + FileInfo option) \<times> fstream" where
  "readFiles_step c a file =
     (let sz = (ucast (m_FileSize file) :: size_t);
          f0 = seekg (unat (m_DataOffset file)) (m_File a)
      in
      if \<not> is_ba2_type (m_Type a) then
        (case
           (if namePrefixed a then
              (case readBString f0 of
                 (Inl e, f1) \<Rightarrow> (Inl e, f1)
               | (Inr fullName, f1) \<Rightarrow>
                   if unat sz \<le> length fullName then (Inr None, f1)
                   else (Inr (Some (sz - of_nat (length fullName + 1))), f1))
            else (Inr (Some sz), f0))
         of
           (Inl e, f1) \<Rightarrow> (Inl e, f1)
         | (Inr None, f1) \<Rightarrow> (Inr None, f1)
         | (Inr (Some sz1), f1) \<Rightarrow>
             (case
                (if m_Type a = TYPE_SKYRIMSE \<and> compressed a file then
                   (case readUInt f1 of
                      (Inl e, f2) \<Rightarrow> (Inl e, f2)
                    | (Inr u, f2) \<Rightarrow>
                        (Inr (file\<lparr>m_UncompressedFileSize := u\<rparr>, sz1 - 4), f2))
                 else (Inr (file, sz1), f1))
              of
                (Inl e, f2) \<Rightarrow> (Inl e, f2)
              | (Inr (file1, sz2), f2) \<Rightarrow>
                  if m_TextureChunks file1 = [] then
                    (case read_new_buffer (unat sz2) f2 of
                       (buffer, f3) \<Rightarrow>
                         (Inr (Some \<lparr>fi_file = file1, fi_data = Some (buffer, ucast sz2)\<rparr>),
                          f3))
                  else (Inr (Some \<lparr>fi_file = file1, fi_data = None\<rparr>), f2)))
      else if m_TextureChunks file = [] then
        (let sz1 = (if sz = 0 then ucast (m_UncompressedFileSize file) else sz) in
         case read_new_buffer (unat sz1) f0 of
           (buffer, f1) \<Rightarrow>
             (Inr (Some \<lparr>fi_file = file, fi_data = Some (buffer, ucast sz1)\<rparr>), f1))
      else
        (let totalSize = foldl (\<lambda>n ch. n + unpackedSize ch) (0 :: BSAULong)
                           (m_TextureChunks file) in
         case read_chunks c (m_Type a) (m_TextureChunks file)
                (replicate (unat totalSize) 0) 0 0 f0 of
           (Inl e, f1) \<Rightarrow> (Inl e, f1)
         | (Inr (chunkData, uncompressedFileSize), f1) \<Rightarrow>
             (Inr (Some \<lparr>fi_file = file\<lparr>m_UncompressedFileSize := uncompressedFileSize,
                                         m_FileSize := 0\<rparr>,
                         fi_data = Some (chunkData, totalSize)\<rparr>),
              f1)))"

section \<open>Writing an archive\<close>

text \<open>
  A \<open>std::fstream\<close> opened for writing: the bytes of the file and the put position. A
  write replaces the bytes at the position and extends the file at its end; after a seek
  past the end the gap is filled with zeros.
\<close>

record ostream =
  obuf :: "8 word list"
  opos :: nat

definition stream_write :: "8 word list \<Rightarrow> ostream \<Rightarrow> ostream" where
  "stream_write bs s =
     \<lparr>obuf = take (opos s) (obuf s) @ replicate (opos s - length (obuf s)) 0 @ bs @
             drop (opos s + length bs) (obuf s),
      opos = opos s + length bs\<rparr>"

definition seekp :: "nat \<Rightarrow> ostream \<Rightarrow> ostream" where
  "seekp p s = s\<lparr>opos := p\<rparr>"

definition tellp :: "ostream \<Rightarrow> nat" where
  "tellp s = opos s"

text \<open>\<open>writeType<BSAULong>\<close> and \<open>writeType<BSAHash>\<close>.\<close>

definition writeULong :: "BSAULong \<Rightarrow> ostream \<Rightarrow> ostream" where
  "writeULong v s = stream_write (u32_bytes v) s"

definition writeHash :: "BSAHash \<Rightarrow> ostream \<Rightarrow> ostream" where
  "writeHash v s = stream_write (u64_bytes v) s"

text \<open>
  Modelled from the spec: \<open>writeBString\<close> and \<open>writeZString\<close> of bsatypes.cpp, declared
  in bsatypes.h. A BString is a 1-byte length followed by the bytes, with no terminator;
  a ZString is the bytes followed by a single \<open>0x00\<close>.
\<close>

definition writeBString :: "string \<Rightarrow> ostream \<Rightarrow> ostream" where
  "writeBString str s = stream_write (of_nat (length str) # string_bytes str) s"

definition writeZString :: "string \<Rightarrow> ostream \<Rightarrow> ostream" where
  "writeZString str s = stream_write (string_bytes str @ [0]) s"

definition typeToID :: "ArchiveType \<Rightarrow> exn + BSAULong" where
  "typeToID t =
     (case t of
        TYPE_MORROWIND \<Rightarrow> Inr 0x100
      | TYPE_OBLIVION \<Rightarrow> Inr 0x67
      | TYPE_FALLOUT3 \<Rightarrow> Inr 0x68
      | TYPE_SKYRIMSE \<Rightarrow> Inr 0x69
      | TYPE_FALLOUT4 \<Rightarrow> Inr 0x01
      | TYPE_STARFIELD \<Rightarrow> Inr 0x02
      | TYPE_STARFIELD_LZ4_TEXTURE \<Rightarrow> Inr 0x03
      | TYPE_FALLOUT4NG_7 \<Rightarrow> Inl (data_invalid_exception (InvalidType 7))
      | TYPE_FALLOUT4NG_8 \<Rightarrow> Inl (data_invalid_exception (InvalidType 8)))"

text \<open>\<open>endsWith\<close> with \<open>_stricmp\<close>: the comparison ignores the case of ASCII letters.\<close>

definition to_lower :: "char \<Rightarrow> char" where
  "to_lower ch =
     (if (65 :: nat) \<le> of_char ch \<and> of_char ch \<le> (90 :: nat)
      then char_of (of_char ch + (32 :: nat)) else ch)"

definition endsWith :: "string \<Rightarrow> string \<Rightarrow> bool" where
  "endsWith fileName ext =
     (if length fileName < length ext then False
      else map to_lower (drop (length fileName - length ext) fileName) = map to_lower ext)"

text \<open>
  \<open>Archive::determineFileFlags\<close>. The flags \<open>hasNIF\<close> to \<open>hasCTL\<close> of the source are
  set together with the bits 0 to 8 of \<open>result\<close>, so the model reads the bits. One
  \<open>if\<close>/\<open>else if\<close> chain runs for each file name.
\<close>

definition extensions :: "string list" where
  "extensions = [''.nif'', ''.dds'', ''.xml'', ''.wav'', ''.mp3'', ''.txt'', ''.spt'', ''.tex'',
                 ''.ctl'']"

fun flag_chain :: "string \<Rightarrow> nat \<Rightarrow> string list \<Rightarrow> BSAULong \<Rightarrow> BSAULong" where
  "flag_chain fileName k [] result = result"
| "flag_chain fileName k (ext # exts) result =
     (if \<not> bit result k \<and> endsWith fileName ext then result OR push_bit k 1
      else flag_chain fileName (Suc k) exts result)"

definition determineFileFlags :: "string list \<Rightarrow> BSAULong" where
  "determineFileFlags fileList = fold (\<lambda>fileName result. flag_chain fileName 0 extensions result)
                                       fileList 0"

text \<open>\<open>Folder::countFiles\<close>, in \<open>unsigned int\<close>.\<close>

fun countFiles :: "Folder \<Rightarrow> 32 word" where
  "countFiles (Folder n h c off ow subs byName files) =
     foldl (\<lambda>result sub. result + countFiles sub) 0 subs + of_nat (length files)"

text \<open>
  \<open>Folder::collectFolders\<close> on the root, each folder together with its
  \<open>getFullPath()\<close>: the names from below the root down to the folder, joined with
  \<open>\\<close>. The source finds the path through the parent pointers; here it is built on
  the way down, \<open>parentPath\<close> being the full path of \<open>this\<close>.
\<close>

definition fullPath :: "string \<Rightarrow> Folder \<Rightarrow> string" where
  "fullPath parentPath sub =
     (if length parentPath \<noteq> 0 then parentPath @ [CHR 0x5C] @ m_FolderName sub
      else m_FolderName sub)"

fun collectFolders :: "string \<Rightarrow> Folder \<Rightarrow> (string \<times> Folder) list" where
  "collectFolders parentPath (Folder n h c off ow subs byName files) =
     concat (map (\<lambda>sub.
                    (if length (m_Files sub) \<noteq> 0 then [(fullPath parentPath sub, sub)] else []) @
                    collectFolders (fullPath parentPath sub) sub)
                 subs)"

text \<open>\<open>Archive::writeHeader\<close>: the 36 bytes of the header.\<close>

definition Archive_writeHeader ::
  "Archive \<Rightarrow> BSAULong \<Rightarrow> BSAULong \<Rightarrow> BSAULong \<Rightarrow> BSAULong \<Rightarrow> ostream \<Rightarrow> exn + ostream" where
  "Archive_writeHeader a flags numFolders folderNamesLength fileNamesLength outfile =
     (case typeToID (m_Type a) of
        Inl e \<Rightarrow> Inl e
      | Inr typeID \<Rightarrow>
          Inr (writeULong flags
              (writeULong fileNamesLength
              (writeULong folderNamesLength
              (writeULong (countFiles (m_RootFolder a))
              (writeULong numFolders
              (writeULong (m_ArchiveFlags a)
              (writeULong 0x24
              (writeULong typeID
              (stream_write [0x42, 0x53, 0x41, 0x00] outfile))))))))))"

text \<open>\<open>Folder::writeHeader\<close>.\<close>

definition Folder_writeHeader :: "Folder \<Rightarrow> ostream \<Rightarrow> ostream" where
  "Folder_writeHeader folder s =
     writeULong (m_OffsetWrite folder)
       (writeULong (of_nat (length (m_Files folder)))
          (writeHash (m_NameHash folder) s))"

text \<open>
  Modelled from the spec: \<open>File::writeHeader\<close> of bsafile.cpp. A file record is
  \<open>{hash:8, size:4, offset:4}\<close>, the offset being the one recorded when the payload
  was copied.
\<close>

definition File_writeHeader :: "File \<Rightarrow> ostream \<Rightarrow> ostream" where
  "File_writeHeader file s =
     writeULong (m_DataOffsetWrite file)
       (writeULong (m_FileSize file)
          (writeHash (m_FileHash file) s))"

text \<open>
  \<open>Folder::writeData\<close>: it records the write-back offset of the folder in the mutable
  member \<open>m_OffsetWrite\<close>, then writes the name and the file records.
\<close>

definition Folder_writeData ::
  "string \<Rightarrow> BSAULong \<Rightarrow> Folder \<Rightarrow> ostream \<Rightarrow> Folder \<times> ostream" where
  "Folder_writeData path fileNamesLength folder s =
     (set_OffsetWrite (of_nat (tellp s) + fileNamesLength) folder,
      fold File_writeHeader (m_Files folder) (writeBString path s))"

text \<open>
  Modelled from the spec: \<open>File::writeData\<close> of bsafile.cpp. It copies the payload of
  the file, \<open>m_FileSize\<close> bytes at \<open>m_DataOffset\<close> of the source archive, to the target
  and records the offset in the target where the payload starts.
\<close>

definition File_writeData ::
  "File \<Rightarrow> fstream \<times> ostream \<Rightarrow> EErrorCode \<times> File \<times> fstream \<times> ostream" where
  "File_writeData file st =
     (case st of (sourceFile, targetFile) \<Rightarrow>
        (case read_new_buffer (unat (m_FileSize file))
                (seekg (unat (m_DataOffset file)) sourceFile) of
           (payload, sourceFile') \<Rightarrow>
             (ERROR_NONE,
              file\<lparr>m_DataOffsetWrite := of_nat (tellp targetFile)\<rparr>,
              sourceFile',
              stream_write payload targetFile)))"

text \<open>\<open>Folder::writeFileData\<close>: the loop over the files, left at the first error.\<close>

fun writeFileData_loop ::
  "File list \<Rightarrow> fstream \<times> ostream \<Rightarrow> EErrorCode \<times> File list \<times> fstream \<times> ostream" where
  "writeFileData_loop [] st = (ERROR_NONE, [], fst st, snd st)"
| "writeFileData_loop (file # files) st =
     (case File_writeData file st of
        (error, file', sourceFile', targetFile') \<Rightarrow>
          if error \<noteq> ERROR_NONE then (error, file' # files, sourceFile', targetFile')
          else
            (case writeFileData_loop files (sourceFile', targetFile') of
               (error', files', st') \<Rightarrow> (error', file' # files', st')))"

definition Folder_writeFileData ::
  "Folder \<Rightarrow> fstream \<times> ostream \<Rightarrow> EErrorCode \<times> Folder \<times> fstream \<times> ostream" where
  "Folder_writeFileData folder st =
     (case writeFileData_loop (m_Files folder) st of
        (error, files', st') \<Rightarrow> (error, set_Files files' folder, st'))"

text \<open>
  The loops of \<open>Archive::write\<close> over the collected folders. The return value of
  \<open>writeFileData\<close> is not looked at.
\<close>

fun writeHeader_pass :: "(string \<times> Folder) list \<Rightarrow> ostream \<Rightarrow> ostream" where
  "writeHeader_pass [] s = s"
| "writeHeader_pass ((path, folder) # folders) s =
     writeHeader_pass folders (Folder_writeHeader folder s)"

fun writeData_pass ::
  "BSAULong \<Rightarrow> (string \<times> Folder) list \<Rightarrow> ostream \<Rightarrow> (string \<times> Folder) list \<times> ostream" where
  "writeData_pass fileNamesLength [] s = ([], s)"
| "writeData_pass fileNamesLength ((path, folder) # folders) s =
     (case Folder_writeData path fileNamesLength folder s of
        (folder', s') \<Rightarrow>
          (case writeData_pass fileNamesLength folders s' of
             (folders', s'') \<Rightarrow> ((path, folder') # folders', s'')))"

fun writeZString_pass :: "string list \<Rightarrow> ostream \<Rightarrow> ostream" where
  "writeZString_pass [] s = s"
| "writeZString_pass (name # names) s = writeZString_pass names (writeZString name s)"

fun writeFileData_pass ::
  "(string \<times> Folder) list \<Rightarrow> fstream \<times> ostream \<Rightarrow> (string \<times> Folder) list \<times> fstream \<times> ostream"
  where
  "writeFileData_pass [] st = ([], st)"
| "writeFileData_pass ((path, folder) # folders) st =
     (case Folder_writeFileData folder st of
        (error, folder', st') \<Rightarrow>
          (case writeFileData_pass folders st' of
             (folders', st'') \<Rightarrow> ((path, folder') # folders', st'')))"

text \<open>
  The lengths that \<open>Archive::write\<close> adds up (lines 426 to 439), in \<open>unsigned long\<close>:
  the lengths of the names, the terminators not counted.
\<close>

definition names_length :: "string list \<Rightarrow> BSAULong" where
  "names_length names = foldl (\<lambda>n name. n + of_nat (length name)) 0 names"

definition folderNames_of :: "(string \<times> Folder) list \<Rightarrow> string list" where
  "folderNames_of folders = map fst folders"

definition fileNames_of :: "(string \<times> Folder) list \<Rightarrow> string list" where
  "fileNames_of folders = concat (map (\<lambda>(path, folder). map m_Name (m_Files folder)) folders)"

text \<open>
  \<open>Archive::write\<close> up to the copy of the file data (lines 421 to 470): the header, the
  folder records, the names with the file records, the file names and the payloads. The
  offsets that this pass writes into the records are those that the folders and files
  hold before they are recorded: placeholders.
\<close>

definition write_placeholder_pass ::
  "Archive \<Rightarrow> exn + (string \<times> Folder) list \<times> fstream \<times> ostream" where
  "write_placeholder_pass a =
     (let folders = collectFolders [] (m_RootFolder a);
          fileNames = fileNames_of folders;
          folderNamesLength = names_length (folderNames_of folders);
          fileNamesLength = names_length fileNames
      in case Archive_writeHeader a (determineFileFlags fileNames) (of_nat (length folders))
                folderNamesLength fileNamesLength \<lparr>obuf = [], opos = 0\<rparr> of
           Inl e \<Rightarrow> Inl e
         | Inr s0 \<Rightarrow>
             (case writeData_pass fileNamesLength folders (writeHeader_pass folders s0) of
                (folders1, s1) \<Rightarrow>
                  Inr (writeFileData_pass folders1 (m_File a, writeZString_pass fileNames s1))))"

text \<open>
  The rest of \<open>Archive::write\<close> (lines 472 to 487): back to \<open>0x24\<close>, and the folder
  records and the names with the file records once more.
\<close>

definition write_fixup_pass ::
  "BSAULong \<Rightarrow> (string \<times> Folder) list \<Rightarrow> ostream \<Rightarrow> (string \<times> Folder) list \<times> ostream" where
  "write_fixup_pass fileNamesLength folders s =
     writeData_pass fileNamesLength folders (writeHeader_pass folders (seekp 0x24 s))"

text \<open>
  \<open>Archive::write\<close>. \<open>writable\<close> tells whether the target can be opened. The result is
  the status code or the exception, the folders as the passes leave them, the source
  stream and the bytes of the target. The only exception is the one of \<open>typeToID\<close>,
  thrown when the magic number has been written. The streams of the model do not fail,
  so the handler for \<open>std::ios_base::failure\<close> is never entered.
\<close>

definition Archive_write ::
  "(string \<Rightarrow> bool) \<Rightarrow> Archive \<Rightarrow> string \<Rightarrow>
   (exn + EErrorCode) \<times> (string \<times> Folder) list \<times> fstream \<times> 8 word list" where
  "Archive_write writable a fileName =
     (if \<not> writable fileName then (Inr ERROR_ACCESSFAILED, [], m_File a, [])
      else
        (case write_placeholder_pass a of
           Inl e \<Rightarrow> (Inl e, [], m_File a, [0x42, 0x53, 0x41, 0x00])
         | Inr (folders, sourceFile, s) \<Rightarrow>
             (case write_fixup_pass
                     (names_length (fileNames_of (collectFolders [] (m_RootFolder a))))
                     folders s of
                (folders', s') \<Rightarrow> (Inr ERROR_NONE, folders', sourceFile, obuf s'))))"

text \<open>
  The layout that the writer is to produce, from the spec: the folder records, each with
  the position of its name block plus the file-name length as offset, and the name
  blocks, each file record with the position of its payload as offset. \<open>pos\<close> is the
  position of the first name block, \<open>dpos\<close> the position of the first payload.
\<close>

definition block_size :: "string \<times> Folder \<Rightarrow> nat" where
  "block_size pf = 1 + length (fst pf) + 16 * length (m_Files (snd pf))"

definition payload_size :: "File list \<Rightarrow> nat" where
  "payload_size files = sum_list (map (\<lambda>file. unat (m_FileSize file)) files)"

fun real_folder_records :: "nat \<Rightarrow> BSAULong \<Rightarrow> (string \<times> Folder) list \<Rightarrow> 8 word list" where
  "real_folder_records pos fileNamesLength [] = []"
| "real_folder_records pos fileNamesLength (pf # folders) =
     u64_bytes (m_NameHash (snd pf)) @ u32_bytes (of_nat (length (m_Files (snd pf)))) @
     u32_bytes (of_nat pos + fileNamesLength) @
     real_folder_records (pos + block_size pf) fileNamesLength folders"

fun real_file_records :: "nat \<Rightarrow> File list \<Rightarrow> 8 word list" where
  "real_file_records dpos [] = []"
| "real_file_records dpos (file # files) =
     u64_bytes (m_FileHash file) @ u32_bytes (m_FileSize file) @ u32_bytes (of_nat dpos) @
     real_file_records (dpos + unat (m_FileSize file)) files"

fun real_name_blocks :: "nat \<Rightarrow> (string \<times> Folder) list \<Rightarrow> 8 word list" where
  "real_name_blocks dpos [] = []"
| "real_name_blocks dpos (pf # folders) =
     (of_nat (length (fst pf)) # string_bytes (fst pf)) @
     real_file_records dpos (m_Files (snd pf)) @
     real_name_blocks (dpos + payload_size (m_Files (snd pf))) folders"

definition name_table :: "string list \<Rightarrow> 8 word list" where
  "name_table names = concat (map (\<lambda>name. string_bytes name @ [0]) names)"

definition blocks_size :: "(string \<times> Folder) list \<Rightarrow> nat" where
  "blocks_size folders = sum_list (map block_size folders)"

text \<open>
  The bytes that the passes write, folder by folder and file by file, with the offsets
  that the folders and files hold at that moment; the offsets that \<open>writeData\<close> and
  \<open>File::writeData\<close> record; and the payloads that the data pass copies. They describe
  the passes for the proofs below.
\<close>

definition folder_header_bytes :: "Folder \<Rightarrow> 8 word list" where
  "folder_header_bytes folder =
     u64_bytes (m_NameHash folder) @ u32_bytes (of_nat (length (m_Files folder))) @
     u32_bytes (m_OffsetWrite folder)"

definition file_header_bytes :: "File \<Rightarrow> 8 word list" where
  "file_header_bytes file =
     u64_bytes (m_FileHash file) @ u32_bytes (m_FileSize file) @
     u32_bytes (m_DataOffsetWrite file)"

definition block_bytes :: "string \<times> Folder \<Rightarrow> 8 word list" where
  "block_bytes pf =
     (of_nat (length (fst pf)) # string_bytes (fst pf)) @
     concat (map file_header_bytes (m_Files (snd pf)))"

fun record_offsets :: "nat \<Rightarrow> BSAULong \<Rightarrow> (string \<times> Folder) list \<Rightarrow> (string \<times> Folder) list" where
  "record_offsets pos fnl [] = []"
| "record_offsets pos fnl (pf # folders) =
     (fst pf, set_OffsetWrite (of_nat pos + fnl) (snd pf)) #
     record_offsets (pos + block_size pf) fnl folders"

fun copied_payloads :: "File list \<Rightarrow> fstream \<Rightarrow> 8 word list \<times> fstream" where
  "copied_payloads [] sourceFile = ([], sourceFile)"
| "copied_payloads (file # files) sourceFile =
     (case read_new_buffer (unat (m_FileSize file))
             (seekg (unat (m_DataOffset file)) sourceFile) of
        (payload, sourceFile') \<Rightarrow>
          (case copied_payloads files sourceFile' of
             (rest, sourceFile'') \<Rightarrow> (payload @ rest, sourceFile'')))"

fun record_file_offsets :: "nat \<Rightarrow> File list \<Rightarrow> File list" where
  "record_file_offsets dpos [] = []"
| "record_file_offsets dpos (file # files) =
     file\<lparr>m_DataOffsetWrite := of_nat dpos\<rparr> #
     record_file_offsets (dpos + unat (m_FileSize file)) files"

fun record_data_offsets :: "nat \<Rightarrow> (string \<times> Folder) list \<Rightarrow> (string \<times> Folder) list" where
  "record_data_offsets dpos [] = []"
| "record_data_offsets dpos (pf # folders) =
     (fst pf, set_Files (record_file_offsets dpos (m_Files (snd pf))) (snd pf)) #
     record_data_offsets (dpos + payload_size (m_Files (snd pf))) folders"

definition all_files :: "(string \<times> Folder) list \<Rightarrow> File list" where
  "all_files folders = concat (map (\<lambda>pf. m_Files (snd pf)) folders)"

definition write_folders :: "Archive \<Rightarrow> (string \<times> Folder) list" where
  "write_folders a = collectFolders [] (m_RootFolder a)"

definition write_fileNamesLength :: "Archive \<Rightarrow> BSAULong" where
  "write_fileNamesLength a = names_length (fileNames_of (write_folders a))"

definition archive_header_bytes :: "Archive \<Rightarrow> BSAULong \<Rightarrow> 8 word list" where
  "archive_header_bytes a typeID =
     [0x42, 0x53, 0x41, 0x00] @ u32_bytes typeID @ u32_bytes 0x24 @
     u32_bytes (m_ArchiveFlags a) @ u32_bytes (of_nat (length (write_folders a))) @
     u32_bytes (countFiles (m_RootFolder a)) @
     u32_bytes (names_length (folderNames_of (write_folders a))) @
     u32_bytes (write_fileNamesLength a) @
     u32_bytes (determineFileFlags (fileNames_of (write_folders a)))"

definition names_start :: "Archive \<Rightarrow> nat" where
  "names_start a = 0x24 + 16 * length (write_folders a)"

definition payload_start :: "Archive \<Rightarrow> nat" where
  "payload_start a =
     names_start a + blocks_size (write_folders a) +
     length (name_table (fileNames_of (write_folders a)))"

text \<open>Archives and files for the examples.\<close>

definition codecs0 :: codecs where
  "codecs0 =
     \<lparr>zlib_inflate = (\<lambda>input n. ZDataError),
      LZ4_decompress_safe = (\<lambda>input n. replicate n 0),
      LZ4F_decompress = (\<lambda>input n. replicate n 0)\<rparr>"

definition archive_bytes :: "8 word list" where
  "archive_bytes = [3, 0x61, 0x62, 0x63, 8, 0, 0, 0, 11, 12, 13, 14, 15, 16, 17, 18]"

definition archive_of :: "ArchiveType \<Rightarrow> BSAULong \<Rightarrow> Archive" where
  "archive_of t fl =
     \<lparr>m_File = open_stream archive_bytes, m_RootFolder = Folder_new hash0,
      m_ArchiveFlags = fl, m_Type = t\<rparr>"

definition general_file :: "BSAUInt \<Rightarrow> BSAHash \<Rightarrow> BSAUInt \<Rightarrow> File" where
  "general_file sz off unpacked = File_new hash0 ''a.nif'' sz off unpacked no_texture_header []"

definition always_writable :: "string \<Rightarrow> bool" where
  "always_writable fileName = True"

text \<open>The tree with the folders \<open>a\<close>, \<open>b\<close>, \<open>c\<close> and files in \<open>c\<close>.\<close>

definition example_file_x :: File where
  "example_file_x = File_new hash0 ''x.nif'' 1 2 3 no_texture_header []"

definition example_file_y :: File where
  "example_file_y = File_new hash0 ''y.nif'' 4 5 6 no_texture_header []"

definition example_tree :: "File list \<Rightarrow> Folder" where
  "example_tree files =
     Folder [] 0 0 0xFFFFFFFF 0
       [Folder ''a'' 0 0 0xFFFFFFFF 0
          [Folder ''b'' 0 0 0xFFFFFFFF 0
             [Folder ''c'' 0 (of_nat (length files)) 0xFFFFFFFF 0 [] [] files]
             [(''c'', 0)] []]
          [(''b'', 0)] []]
       [(''a'', 0)] []"

text \<open>Texture entries for the examples: one of an unlisted format, one of format BC7.\<close>

definition sample_chunk :: FO4TextureChunk where
  "sample_chunk =
     \<lparr>chunk_offset = 64, packedSize = 0, unpackedSize = 4, startMip = 0, endMip = 0,
      chunk_unknown = 0\<rparr>"

definition texture_unlisted :: File where
  "texture_unlisted =
     File_new hash0 ''t.dds'' 0 64 4
       (no_texture_header\<lparr>chunkNumber := 1, height := 2, width := 2, mipCount := 1,
                           format := 2\<rparr>)
       [sample_chunk]"

definition texture_bc7 :: File where
  "texture_bc7 =
     File_new hash0 ''t.dds'' 0 64 4
       (no_texture_header\<lparr>chunkNumber := 1, height := 2, width := 2, mipCount := 1,
                           format := 98\<rparr>)
       [sample_chunk]"

text \<open>An archive to write: the folder \<open>a\\b\\c\<close> with two files.\<close>

definition example_write_archive :: Archive where
  "example_write_archive =
     \<lparr>m_File = open_stream archive_bytes,
      m_RootFolder = example_tree [general_file 2 8 0, general_file 3 12 0],
      m_ArchiveFlags = 3, m_Type = TYPE_FALLOUT3\<rparr>"

definition example_written_bytes :: "8 word list" where
  "example_written_bytes =
     [0x42, 0x53, 0x41, 0,  0x68, 0, 0, 0,  0x24, 0, 0, 0,  3, 0, 0, 0,  1, 0, 0, 0,
      2, 0, 0, 0,  5, 0, 0, 0,  10, 0, 0, 0,  1, 0, 0, 0,
      0, 0, 0, 0, 0, 0, 0, 0,  2, 0, 0, 0,  62, 0, 0, 0,
      5, 0x61, 0x5C, 0x62, 0x5C, 0x63,
      0, 0, 0, 0, 0, 0, 0, 0,  2, 0, 0, 0,  102, 0, 0, 0,
      0, 0, 0, 0, 0, 0, 0, 0,  3, 0, 0, 0,  104, 0, 0, 0,
      0x61, 0x2E, 0x6E, 0x69, 0x66, 0,  0x61, 0x2E, 0x6E, 0x69, 0x66, 0,
      11, 12,  15, 16, 17]"

section \<open>Properties of the header reader\<close>

lemma readType_ok:
  "\<not> failbit s \<Longrightarrow> is_open s \<Longrightarrow> gpos s + n \<le> length (content s) \<Longrightarrow>
   readType n s =
     (Inr (le_nat (take n (drop (gpos s) (content s)))), s\<lparr>gpos := gpos s + n\<rparr>)"
  by (simp add: readType_def stream_read_def)

lemma readUInt_ok:
  "\<not> failbit s \<Longrightarrow> is_open s \<Longrightarrow> gpos s + 4 \<le> length (content s) \<Longrightarrow>
   readUInt s =
     (Inr (of_nat (le_nat (take 4 (drop (gpos s) (content s))))), s\<lparr>gpos := gpos s + 4\<rparr>)"
  by (simp add: readUInt_def bindS_def returnS_def readType_ok)

lemma bindS_Inr:
  "bindS m f s = (Inr v, s') \<Longrightarrow> \<exists>x s1. m s = (Inr x, s1) \<and> f x s1 = (Inr v, s')"
  by (auto simp: bindS_def split: prod.splits sum.splits)

lemma readUInt_Inr:
  "readUInt s = (Inr v, s') \<Longrightarrow>
     s' = s\<lparr>gpos := gpos s + 4\<rparr> \<and> \<not> failbit s \<and> is_open s \<and>
     gpos s + 4 \<le> length (content s) \<and>
     v = of_nat (le_nat (take 4 (drop (gpos s) (content s))))"
  by (auto simp: readUInt_def bindS_def returnS_def readType_def stream_read_def
      split: prod.splits sum.splits if_splits)

lemma readHeader_bad_magic:
  assumes "4 \<le> length bytes"
    and "header_magic bytes \<noteq> 0x00415342" "header_magic bytes \<noteq> 0x58445442"
      "header_magic bytes \<noteq> 0x100"
  shows "fst (readHeader (open_stream bytes)) = Inl (data_invalid_exception NotABsaOrBa2File)"
  using assms
  by (simp add: readHeader_def bindS_def readUInt_ok open_stream_def throwS_def Let_def
      header_magic_def)

lemma readHeader_bad_version:
  assumes "8 \<le> length bytes"
    and "header_magic bytes = 0x00415342 \<or> header_magic bytes = 0x58445442"
    and "typeFromID (header_version bytes) = Inl e"
  shows "fst (readHeader (open_stream bytes)) = Inl e"
  using assms
  by (auto simp add: readHeader_def bindS_def readUInt_ok open_stream_def throwS_def Let_def
      header_magic_def header_version_def)

lemma readHeader_type:
  assumes "readHeader (open_stream bytes) = (Inr h, s)"
  shows "(header_magic bytes = 0x100 \<longrightarrow> type h = TYPE_MORROWIND) \<and>
         (header_magic bytes \<noteq> 0x100 \<longrightarrow> typeFromID (header_version bytes) = Inr (type h))"
  using assms
  by (auto simp: readHeader_def Let_def throwS_def returnS_def open_stream_def
      header_magic_def header_version_def
      dest!: bindS_Inr readUInt_Inr split: if_splits sum.splits)

lemma readHeader_ba2_flags:
  assumes "readHeader s0 = (Inr h, s)" "is_ba2_type (type h)"
  shows "archiveFlags h = FLAG_HASDIRNAMES OR FLAG_HASFILENAMES"
  using assms
  by (auto simp: readHeader_def Let_def throwS_def returnS_def is_ba2_type_def
      dest!: bindS_Inr split: if_splits sum.splits)

lemma read_header_throws:
  assumes "fs fileName = Some bytes"
    and "fst (readHeader (open_stream bytes)) = Inl (data_invalid_exception e)"
  shows "fst (read rr fs fileName th a) = Inl (data_invalid_exception (WithFileName e fileName))"
  using assms
  by (cases "readHeader (open_stream bytes)")
     (simp add: read_def catch_ios_base_failure_def)

lemma read_header_ok:
  assumes "fs fileName = Some bytes"
    and "readHeader (open_stream bytes) = (Inr h, s)"
  shows "read rr fs fileName th a =
           catch_ios_base_failure
             (rr h th (a\<lparr>m_File := s, m_ArchiveFlags := archiveFlags h, m_Type := type h\<rparr>))"
  using assms by (simp add: read_def)

lemma typeFromID_other:
  assumes "v \<noteq> 0x100" "v \<noteq> 0x67" "v \<noteq> 0x68" "v \<noteq> 0x69" "v \<noteq> 1" "v \<noteq> 2" "v \<noteq> 3"
  shows "typeFromID v = Inl (data_invalid_exception (InvalidType v))"
  using assms by (simp add: typeFromID_def)

text \<open>
  C1, as the claim states it, fails: a file whose first four bytes are not one of the three
  magic numbers, and a file with the magic number \<open>BSA\<close> and the version id \<open>0x6A\<close>, do
  not make \<open>read\<close> return \<open>ERROR_INVALIDDATA\<close>. \<open>read\<close> returns no status code at all
  there: the \<open>data_invalid_exception\<close> of the header reader leaves it.
\<close>

theorem C1_read_invaliddata_counterexample:
  "fst (read no_records [''a.bsa'' \<mapsto> bad_magic_file] ''a.bsa'' False (Archive_new hash0))
     \<noteq> Inr ERROR_INVALIDDATA \<and>
   fst (read no_records [''a.bsa'' \<mapsto> bad_version_file] ''a.bsa'' False (Archive_new hash0))
     \<noteq> Inr ERROR_INVALIDDATA"
  by (simp add: read_def readHeader_def bindS_def readUInt_def readType_def stream_read_def
      open_stream_def throwS_def returnS_def le_nat_def Let_def bad_magic_file_def
      bad_version_file_def typeFromID_def catch_ios_base_failure_def)

text \<open>
  C1, amended: the version id is mapped to the archive type by the table (\<open>0x100\<close> to
  Morrowind, \<open>0x67\<close> to Oblivion, \<open>0x68\<close> to Fallout3/NV/SkyrimLE, \<open>0x69\<close> to SkyrimSE,
  \<open>0x01\<close> to Fallout4, \<open>0x02\<close> to Starfield, \<open>0x03\<close> to Starfield-LZ4-Texture), and a
  header that is read stores that type in the archive before the record readers run (the
  magic number \<open>0x100\<close> gives Morrowind without a version id). For a file that can be
  opened, any other version id after the magic number \<open>BSA\<close> or \<open>BTDX\<close>, and any magic
  number other than the three recognised ones, makes \<open>read\<close> fail by throwing a
  \<open>data_invalid_exception\<close> whose message names the file; no status code is returned.
\<close>

theorem C1_read_version_dispatch:
  assumes "fs fileName = Some bytes"
  shows
    "typeFromID 0x100 = Inr TYPE_MORROWIND \<and>
     typeFromID 0x67 = Inr TYPE_OBLIVION \<and>
     typeFromID 0x68 = Inr TYPE_FALLOUT3 \<and>
     typeFromID 0x69 = Inr TYPE_SKYRIMSE \<and>
     typeFromID 0x01 = Inr TYPE_FALLOUT4 \<and>
     typeFromID 0x02 = Inr TYPE_STARFIELD \<and>
     typeFromID 0x03 = Inr TYPE_STARFIELD_LZ4_TEXTURE \<and>
     (4 \<le> length bytes \<and> header_magic bytes \<notin> {0x00415342, 0x58445442, 0x100} \<longrightarrow>
        fst (read rr fs fileName th a) =
          Inl (data_invalid_exception (WithFileName NotABsaOrBa2File fileName))) \<and>
     (8 \<le> length bytes \<and> header_magic bytes \<in> {0x00415342, 0x58445442} \<and>
      header_version bytes \<notin> {0x100, 0x67, 0x68, 0x69, 0x01, 0x02, 0x03} \<longrightarrow>
        fst (read rr fs fileName th a) =
          Inl (data_invalid_exception
                 (WithFileName (InvalidType (header_version bytes)) fileName))) \<and>
     (\<forall>h s. readHeader (open_stream bytes) = (Inr h, s) \<longrightarrow>
        (header_magic bytes = 0x100 \<longrightarrow> type h = TYPE_MORROWIND) \<and>
        (header_magic bytes \<noteq> 0x100 \<longrightarrow> typeFromID (header_version bytes) = Inr (type h)) \<and>
        read rr fs fileName th a =
          catch_ios_base_failure
            (rr h th (a\<lparr>m_File := s, m_ArchiveFlags := archiveFlags h, m_Type := type h\<rparr>)))"
proof -
  have table:
    "typeFromID 0x100 = Inr TYPE_MORROWIND" "typeFromID 0x67 = Inr TYPE_OBLIVION"
    "typeFromID 0x68 = Inr TYPE_FALLOUT3" "typeFromID 0x69 = Inr TYPE_SKYRIMSE"
    "typeFromID 0x01 = Inr TYPE_FALLOUT4" "typeFromID 0x02 = Inr TYPE_STARFIELD"
    "typeFromID 0x03 = Inr TYPE_STARFIELD_LZ4_TEXTURE"
    by (simp_all add: typeFromID_def)
  have magic:
    "fst (read rr fs fileName th a) =
       Inl (data_invalid_exception (WithFileName NotABsaOrBa2File fileName))"
    if "4 \<le> length bytes \<and> header_magic bytes \<notin> {0x00415342, 0x58445442, 0x100}"
    using that readHeader_bad_magic [of bytes]
      read_header_throws [of fs fileName bytes NotABsaOrBa2File rr th a] assms by simp
  have version:
    "fst (read rr fs fileName th a) =
       Inl (data_invalid_exception (WithFileName (InvalidType (header_version bytes)) fileName))"
    if "8 \<le> length bytes \<and> header_magic bytes \<in> {0x00415342, 0x58445442} \<and>
        header_version bytes \<notin> {0x100, 0x67, 0x68, 0x69, 0x01, 0x02, 0x03}"
  proof -
    from that have "typeFromID (header_version bytes) =
        Inl (data_invalid_exception (InvalidType (header_version bytes)))"
      by (intro typeFromID_other) simp_all
    with that have "fst (readHeader (open_stream bytes)) =
        Inl (data_invalid_exception (InvalidType (header_version bytes)))"
      by (intro readHeader_bad_version) auto
    with assms show ?thesis by (rule read_header_throws)
  qed
  have ok:
    "(header_magic bytes = 0x100 \<longrightarrow> type h = TYPE_MORROWIND) \<and>
     (header_magic bytes \<noteq> 0x100 \<longrightarrow> typeFromID (header_version bytes) = Inr (type h)) \<and>
     read rr fs fileName th a =
       catch_ios_base_failure
         (rr h th (a\<lparr>m_File := s, m_ArchiveFlags := archiveFlags h, m_Type := type h\<rparr>))"
    if "readHeader (open_stream bytes) = (Inr h, s)" for h s
    using readHeader_type [OF that] read_header_ok [of fs fileName bytes h s rr th a] assms that
    by simp
  from table magic version ok show ?thesis by blast
qed

theorem C1_read_version_dispatch_witness:
  "fst (read no_records [''a.bsa'' \<mapsto> bad_magic_file] ''a.bsa'' False (Archive_new hash0)) =
     Inl (data_invalid_exception (WithFileName NotABsaOrBa2File ''a.bsa'')) \<and>
   fst (read no_records [''a.bsa'' \<mapsto> bad_version_file] ''a.bsa'' False (Archive_new hash0)) =
     Inl (data_invalid_exception (WithFileName (InvalidType 0x6A) ''a.bsa'')) \<and>
   m_Type (snd (read no_records [''a.bsa'' \<mapsto> oblivion_header_file] ''a.bsa'' False
                  (Archive_new hash0))) = TYPE_OBLIVION"
proof -
  have m: "4 \<le> length bad_magic_file \<and>
      header_magic bad_magic_file \<notin> {0x00415342, 0x58445442, 0x100}"
    by (simp add: bad_magic_file_def header_magic_def le_nat_def)
  have v: "8 \<le> length bad_version_file \<and>
      header_magic bad_version_file \<in> {0x00415342, 0x58445442} \<and>
      header_version bad_version_file \<notin> {0x100, 0x67, 0x68, 0x69, 0x01, 0x02, 0x03}"
    "header_version bad_version_file = 0x6A"
    by (simp_all add: bad_version_file_def header_magic_def header_version_def le_nat_def)
  obtain h s where hs: "readHeader (open_stream oblivion_header_file) = (Inr h, s)"
    and ty: "type h = TYPE_OBLIVION"
    by (simp add: readHeader_def bindS_def readUInt_def readType_def stream_read_def
        open_stream_def throwS_def returnS_def le_nat_def Let_def oblivion_header_file_def
        typeFromID_def is_ba2_type_def)
  have 1: "fst (read no_records [''a.bsa'' \<mapsto> bad_magic_file] ''a.bsa'' False (Archive_new hash0)) =
     Inl (data_invalid_exception (WithFileName NotABsaOrBa2File ''a.bsa''))"
    using m C1_read_version_dispatch
      [of "[''a.bsa'' \<mapsto> bad_magic_file]" "''a.bsa''" bad_magic_file no_records False
        "Archive_new hash0"]
    by simp
  have 2: "fst (read no_records [''a.bsa'' \<mapsto> bad_version_file] ''a.bsa'' False (Archive_new hash0)) =
     Inl (data_invalid_exception (WithFileName (InvalidType 0x6A) ''a.bsa''))"
    using v C1_read_version_dispatch
      [of "[''a.bsa'' \<mapsto> bad_version_file]" "''a.bsa''" bad_version_file no_records False
        "Archive_new hash0"]
    by simp
  have 3: "m_Type (snd (read no_records [''a.bsa'' \<mapsto> oblivion_header_file] ''a.bsa'' False
                  (Archive_new hash0))) = TYPE_OBLIVION"
    using hs ty C1_read_version_dispatch
      [of "[''a.bsa'' \<mapsto> oblivion_header_file]" "''a.bsa''" oblivion_header_file no_records
        False "Archive_new hash0"]
    by (simp add: no_records_def catch_ios_base_failure_def)
  from 1 2 3 show ?thesis by simp
qed

section \<open>Properties of the compression predicate\<close>

text \<open>
  C2: for a file of an older-layout archive (Oblivion, Fallout3/NV/SkyrimLE, SkyrimSE),
  \<open>compressed\<close> is the default-compressed flag XOR the toggle bit of the file; for a
  Fallout 4 archive it holds if and only if the stored size is greater than 0, and the
  stored size of a file made from a file record is the \<open>packedSize\<close> of the record.
\<close>

theorem C2_compressed_predicate:
  "(m_Type a \<in> {TYPE_OBLIVION, TYPE_FALLOUT3, TYPE_SKYRIMSE} \<longrightarrow>
      compressed a file = (defaultCompressed a \<noteq> compressToggled file)) \<and>
   (m_Type a = TYPE_FALLOUT4 \<longrightarrow>
      compressed a file = (0 < m_FileSize file) \<and>
      compressed a (File_new hash name packed off unpacked hdr chunks) = (0 < packed))"
  by (auto simp: compressed_def File_new_def)

theorem C2_compressed_predicate_witness:
  "compressed (Archive_new hash0\<lparr>m_ArchiveFlags := 7\<rparr>)
     (File_new hash0 ''a.nif'' 16 36 0 no_texture_header []) = True \<and>
   compressed (Archive_new hash0\<lparr>m_Type := TYPE_FALLOUT4\<rparr>)
     (File_new hash0 ''a.nif'' 0 36 16 no_texture_header []) = False"
  using C2_compressed_predicate
    [of "Archive_new hash0\<lparr>m_ArchiveFlags := 7\<rparr>"
      "File_new hash0 ''a.nif'' 16 36 0 no_texture_header []"]
    C2_compressed_predicate
    [of "Archive_new hash0\<lparr>m_Type := TYPE_FALLOUT4\<rparr>" _ hash0 "''a.nif''" 0 36 16
      no_texture_header "[]"]
  by (simp add: Archive_new_def defaultCompressed_def FLAG_DEFAULTCOMPRESSED_def
      compressToggled_def File_new_def)

text \<open>
  C9: for Starfield and Starfield-LZ4-Texture archives \<open>compressed\<close> is the toggle bit XOR
  the default-compressed flag, not the test of the stored size; the header reader gives
  every archive of a BTDX type (Fallout4, Starfield, Starfield-LZ4-Texture) the flags
  has-dir-names and has-file-names only, so default-compressed is clear, and for the two
  Starfield types \<open>compressed\<close> is the toggle bit alone.
\<close>

theorem C9_starfield_compressed_toggle:
  assumes "readHeader s0 = (Inr h, s)"
    and "is_ba2_type (type h)"
    and "m_ArchiveFlags a = archiveFlags h"
    and "m_Type a = type h"
  shows "\<not> defaultCompressed a \<and>
         (type h \<in> {TYPE_STARFIELD, TYPE_STARFIELD_LZ4_TEXTURE} \<longrightarrow>
            compressed a file = (compressToggled file \<noteq> defaultCompressed a) \<and>
            compressed a file = compressToggled file)"
proof -
  have "archiveFlags h = FLAG_HASDIRNAMES OR FLAG_HASFILENAMES"
    using assms(1,2) by (rule readHeader_ba2_flags)
  with assms(3) have "\<not> defaultCompressed a"
    by (simp add: defaultCompressed_def FLAG_HASDIRNAMES_def FLAG_HASFILENAMES_def
        FLAG_DEFAULTCOMPRESSED_def)
  with assms(4) show ?thesis
    by (auto simp: compressed_def)
qed

theorem C9_starfield_compressed_toggle_witness:
  "compressed
     (snd (read no_records [''s.ba2'' \<mapsto> starfield_header_file] ''s.ba2'' False
             (Archive_new hash0)))
     (File_new hash0 ''a.nif'' 16 36 0 no_texture_header []\<lparr>m_ToggleCompressed := True\<rparr>) = True"
proof -
  obtain h s where hs: "readHeader (open_stream starfield_header_file) = (Inr h, s)"
    and ty: "type h = TYPE_STARFIELD"
    by (simp add: readHeader_def bindS_def readUInt_def readHash_def readType_def
        stream_read_def open_stream_def throwS_def returnS_def le_nat_def Let_def
        starfield_header_file_def typeFromID_def is_ba2_type_def)
  have rd: "snd (read no_records [''s.ba2'' \<mapsto> starfield_header_file] ''s.ba2'' False
             (Archive_new hash0)) =
        Archive_new hash0\<lparr>m_File := s, m_ArchiveFlags := archiveFlags h, m_Type := type h\<rparr>"
    using hs by (simp add: read_def no_records_def catch_ios_base_failure_def)
  show ?thesis
    using C9_starfield_compressed_toggle
      [OF hs, of "Archive_new hash0\<lparr>m_File := s, m_ArchiveFlags := archiveFlags h,
         m_Type := type h\<rparr>"
        "File_new hash0 ''a.nif'' 16 36 0 no_texture_header []\<lparr>m_ToggleCompressed := True\<rparr>"]
      ty rd
    by (simp add: is_ba2_type_def compressToggled_def)
qed


section \<open>Properties of the DDS header\<close>

lemmas DXGI_defs =
  DXGI_FORMAT_BC1_UNORM_def DXGI_FORMAT_BC1_UNORM_SRGB_def DXGI_FORMAT_BC2_UNORM_def
  DXGI_FORMAT_BC2_UNORM_SRGB_def DXGI_FORMAT_BC3_UNORM_def DXGI_FORMAT_BC3_UNORM_SRGB_def
  DXGI_FORMAT_BC4_UNORM_def DXGI_FORMAT_BC5_UNORM_def DXGI_FORMAT_BC5_SNORM_def
  DXGI_FORMAT_BC7_UNORM_def DXGI_FORMAT_BC7_UNORM_SRGB_def DXGI_FORMAT_R8G8B8A8_UNORM_def
  DXGI_FORMAT_B8G8R8A8_UNORM_def DXGI_FORMAT_B8G8R8X8_UNORM_def DXGI_FORMAT_R8_UNORM_def

lemma unknown2_not_2049: "uint (w :: 8 word) \<noteq> 2049"
  using uint_lt2p [of w] by simp

lemma DDS_switch_unsupported:
  "\<not> supported_format (format th) \<Longrightarrow> DDS_switch d th dx b = (DDS_HEADER_zero, dx, b)"
  by (simp add: DDS_switch_def Let_def supported_format_def)

lemma DDS_switch_supported:
  assumes "supported_format (format th)"
  shows "dds_flags (fst (DDS_switch d th dx b)) = dds_flags d \<and>
         caps (fst (DDS_switch d th dx b)) = caps d \<and>
         caps2 (fst (DDS_switch d th dx b)) = caps2 d"
proof -
  have "format th \<in> {71, 72, 74, 75, 77, 78, 80, 83, 84, 98, 99, 28, 87, 88, 61}"
    using assms by (simp add: supported_format_def DXGI_defs)
  then show ?thesis
    by (elim insertE emptyE) (simp_all add: DDS_switch_def DXGI_defs)
qed

lemma getDDSHeader_caps2: "caps2 (fst (getDDSHeader file dx b)) = 0"
  by (cases "supported_format (format (m_TextureHeader file))")
     (simp_all add: getDDSHeader_def Let_def unknown2_not_2049 DDS_switch_supported
       DDS_switch_unsupported DDS_HEADER_zero_def)

lemma getDDSHeader_supported:
  assumes "supported_format (format (m_TextureHeader file))"
  shows "dds_flags (fst (getDDSHeader file dx b)) =
           DDS_HEADER_FLAGS_TEXTURE OR DDS_HEADER_FLAGS_LINEARSIZE OR DDS_HEADER_FLAGS_MIPMAP \<and>
         caps (fst (getDDSHeader file dx b)) =
           DDS_SURFACE_FLAGS_TEXTURE OR DDS_SURFACE_FLAGS_MIPMAP"
  using assms
  by (simp add: getDDSHeader_def Let_def unknown2_not_2049 DDS_switch_supported
      DDS_HEADER_zero_def)

lemma getDDSHeader_unsupported:
  assumes "\<not> supported_format (format (m_TextureHeader file))"
  shows "getDDSHeader file dx b = (DDS_HEADER_zero, dx, b)"
  using assms by (simp add: getDDSHeader_def Let_def DDS_switch_unsupported)

lemma texture_headers_fst:
  "fst (texture_headers file) = fst (getDDSHeader file DDS_HEADER_DXT10_zero False)"
  by (simp add: texture_headers_def split: prod.splits)

lemma texture_headers_ext:
  "snd (texture_headers file) = Some x \<Longrightarrow>
     resourceDimension x = DDS_DIMENSION_TEXTURE2D \<and> miscFlag x = 0 \<and> arraySize x = 1 \<and>
     miscFlags2 x = 0"
  by (auto simp: texture_headers_def getDX10Header_def split: prod.splits if_splits)

text \<open>
  C3, as the claim states it, fails: for a texture entry whose format has no case in the
  \<open>switch\<close> (here format 2), the synthesized header is the value-initialised one, and
  its flags and caps are 0.
\<close>

theorem C3_dds_flags_counterexample:
  "dds_flags (fst (texture_headers texture_unlisted)) \<noteq>
     DDS_HEADER_FLAGS_TEXTURE OR DDS_HEADER_FLAGS_LINEARSIZE OR DDS_HEADER_FLAGS_MIPMAP \<and>
   caps (fst (texture_headers texture_unlisted)) \<noteq>
     DDS_SURFACE_FLAGS_TEXTURE OR DDS_SURFACE_FLAGS_MIPMAP"
proof -
  have "\<not> supported_format (format (m_TextureHeader texture_unlisted))"
    by (simp add: texture_unlisted_def File_new_def supported_format_def DXGI_defs)
  then have "fst (texture_headers texture_unlisted) = DDS_HEADER_zero"
    by (simp add: texture_headers_fst getDDSHeader_unsupported)
  then show ?thesis
    by (simp add: DDS_HEADER_zero_def DDS_HEADER_FLAGS_TEXTURE_def
        DDS_HEADER_FLAGS_LINEARSIZE_def DDS_HEADER_FLAGS_MIPMAP_def
        DDS_SURFACE_FLAGS_TEXTURE_def DDS_SURFACE_FLAGS_MIPMAP_def)
qed

text \<open>
  C3, amended: for every texture entry whose format is one of those listed in the table
  of the DDS synthesizer, the synthesized DDS header has flags
  \<open>TEXTURE|LINEARSIZE|MIPMAP\<close> and caps \<open>TEXTURE|MIPMAP\<close>; for every texture entry,
  caps2 equals \<open>CUBEMAP_ALLFACES\<close> if and only if \<open>unknown2\<close> equals 2049; and whenever
  the DX10 extension is emitted its fields are resourceDimension = \<open>TEXTURE2D\<close>,
  miscFlag = 0, arraySize = 1, miscFlags2 = 0.
\<close>

theorem C3_dds_header_fields:
  "(supported_format (format (m_TextureHeader file)) \<longrightarrow>
      dds_flags (fst (texture_headers file)) =
        DDS_HEADER_FLAGS_TEXTURE OR DDS_HEADER_FLAGS_LINEARSIZE OR DDS_HEADER_FLAGS_MIPMAP \<and>
      caps (fst (texture_headers file)) =
        DDS_SURFACE_FLAGS_TEXTURE OR DDS_SURFACE_FLAGS_MIPMAP) \<and>
   (caps2 (fst (texture_headers file)) = DDS_CUBEMAP_ALLFACES \<longleftrightarrow>
      uint (unknown2 (m_TextureHeader file)) = 2049) \<and>
   (\<forall>x. snd (texture_headers file) = Some x \<longrightarrow>
      resourceDimension x = DDS_DIMENSION_TEXTURE2D \<and> miscFlag x = 0 \<and> arraySize x = 1 \<and>
      miscFlags2 x = 0)"
proof -
  have "caps2 (fst (texture_headers file)) \<noteq> DDS_CUBEMAP_ALLFACES"
    by (simp add: texture_headers_fst getDDSHeader_caps2 DDS_CUBEMAP_ALLFACES_def)
  then show ?thesis
    using getDDSHeader_supported [of "file" DDS_HEADER_DXT10_zero False]
      texture_headers_ext [of "file"]
    by (simp add: texture_headers_fst unknown2_not_2049)
qed

theorem C3_dds_header_fields_witness:
  "dds_flags (fst (texture_headers texture_bc7)) = 0x000A1007 \<and>
   caps (fst (texture_headers texture_bc7)) = 0x00401008 \<and>
   snd (texture_headers texture_bc7) =
     Some \<lparr>dxgiFormat = 98, resourceDimension = 3, miscFlag = 0, arraySize = 1,
           miscFlags2 = 0\<rparr>"
proof -
  have sup: "supported_format (format (m_TextureHeader texture_bc7))"
    by (simp add: texture_bc7_def File_new_def supported_format_def DXGI_defs)
  have ext: "snd (texture_headers texture_bc7) =
     Some \<lparr>dxgiFormat = 98, resourceDimension = 3, miscFlag = 0, arraySize = 1,
           miscFlags2 = 0\<rparr>"
    by (simp add: texture_headers_def getDDSHeader_def Let_def DDS_switch_def DXGI_defs
        texture_bc7_def File_new_def getDX10Header_def DDS_HEADER_DXT10_zero_def
        DDS_DIMENSION_TEXTURE2D_def)
  show ?thesis
    using C3_dds_header_fields [of texture_bc7] sup ext
    by (simp add: DDS_HEADER_FLAGS_TEXTURE_def DDS_HEADER_FLAGS_LINEARSIZE_def
        DDS_HEADER_FLAGS_MIPMAP_def DDS_SURFACE_FLAGS_TEXTURE_def
        DDS_SURFACE_FLAGS_MIPMAP_def)
qed

section \<open>Properties of the extraction\<close>

lemma copy_loop_0: "copy_loop 0 buf out f = (out, f)"
  by (subst copy_loop.simps) simp

lemma copy_loop_pos:
  "0 < n \<Longrightarrow> copy_loop n buf out f =
     (let chunkSize = min n CHUNK_SIZE;
          r = stream_read chunkSize f;
          buf' = fst r @ drop (length (fst r)) buf
      in copy_loop (n - chunkSize) buf' (out @ take chunkSize buf') (snd r))"
  by (subst copy_loop.simps) simp

lemma stream_read_length: "length (fst (stream_read n s)) \<le> n"
  by (auto simp: stream_read_def)

lemma read_new_buffer_length: "length (fst (read_new_buffer n s)) = n"
  by (auto simp: read_new_buffer_def stream_read_def split: prod.splits if_splits)

text \<open>The loop at the end of \<open>extractDirect\<close> appends as many bytes as the file has.\<close>

lemma copy_loop_length:
  "CHUNK_SIZE \<le> length buf \<Longrightarrow> length (fst (copy_loop n buf out f)) = length out + n"
proof (induction n buf out f rule: copy_loop.induct)
  case (1 sizeLeft inBuffer outFile f)
  show ?case
  proof (cases "sizeLeft > 0")
    case False
    then show ?thesis by (simp add: copy_loop_0)
  next
    case True
    define chunkSize where "chunkSize = min sizeLeft CHUNK_SIZE"
    define r where "r = stream_read chunkSize f"
    define buf' where "buf' = fst r @ drop (length (fst r)) inBuffer"
    have len_r: "length (fst r) \<le> chunkSize"
      unfolding r_def by (rule stream_read_length)
    have cs: "chunkSize \<le> CHUNK_SIZE" "chunkSize \<le> sizeLeft"
      by (simp_all add: chunkSize_def)
    have len_buf: "length buf' = length inBuffer"
      using len_r cs "1.prems" by (simp add: buf'_def)
    have IH: "length (fst (copy_loop (sizeLeft - chunkSize) buf'
                             (outFile @ take chunkSize buf') (snd r))) =
              length (outFile @ take chunkSize buf') + (sizeLeft - chunkSize)"
      using "1.IH" [OF True chunkSize_def r_def buf'_def] len_buf "1.prems" by simp
    have "copy_loop sizeLeft inBuffer outFile f =
        copy_loop (sizeLeft - chunkSize) buf' (outFile @ take chunkSize buf') (snd r)"
      using True by (subst copy_loop.simps) (simp add: Let_def chunkSize_def r_def buf'_def)
    with IH show ?thesis
      using cs len_buf "1.prems" by simp
  qed
qed

text \<open>
  A raw file of an older-layout archive without name prefix: \<open>extractDirect\<close> writes
  twice as many bytes as the file has.
\<close>

lemma extractDirect_raw_length:
  assumes "\<not> is_ba2_type (m_Type a)" "\<not> namePrefixed a" "m_FileSize file \<noteq> 0"
  shows "length (fst (snd (extractDirect a file outFile))) =
           length outFile + 2 * unat (m_FileSize file)"
proof -
  define f0 where "f0 = seekg (unat (m_DataOffset file)) (clear (m_File a))"
  define r where "r = read_new_buffer (unat (m_FileSize file)) f0"
  have len: "length (fst r) = unat (m_FileSize file)"
    unfolding r_def by (rule read_new_buffer_length)
  have "extractDirect a file outFile =
      (Inr ERROR_NONE,
       copy_loop (unat (m_FileSize file)) (replicate CHUNK_SIZE 0) (outFile @ fst r) (snd r))"
    using assms
    by (simp add: extractDirect_def Let_def skip_name_prefix_def raw_copy_def f0_def r_def
        split: prod.splits)
  then show ?thesis
    using len by (simp add: copy_loop_length)
qed

text \<open>
  C4 at a failing input: a raw file of 2 bytes at offset 8 of a Fallout3/NV/SkyrimLE
  archive. The claim says that single-file extraction writes exactly the 2 stored bytes
  11, 12; the code writes them and then the 2 bytes that follow them in the archive.
\<close>

theorem C4_extract_raw_at_failing_input:
  "Archive_extract codecs0 always_writable (archive_of TYPE_FALLOUT3 3) (general_file 2 8 0)
     ''out'' =
   (Inr ERROR_NONE, [11, 12, 13, 14], open_stream archive_bytes\<lparr>gpos := 12\<rparr>)"
  by (simp add: Archive_extract_def always_writable_def compressed_def archive_of_def
      general_file_def File_new_def extractDirect_def compressToggled_def
      defaultCompressed_def FLAG_DEFAULTCOMPRESSED_def is_ba2_type_def skip_name_prefix_def
      namePrefixed_def FLAG_NAMEPREFIXED_def raw_copy_def seekg_def clear_def open_stream_def
      read_new_buffer_def stream_read_def archive_bytes_def Let_def copy_loop_pos copy_loop_0
      CHUNK_SIZE_def)

text \<open>
  C5 at a failing input: a GNRL file record of a Fallout 4 archive with \<open>packedSize\<close> 0,
  \<open>unpackedSize\<close> 4 and offset 8. The claim says that single-file extraction copies the
  4 bytes 11, 12, 13, 14 from the offset; the code returns \<open>ERROR_NONE\<close> with an empty
  output file and does not touch the archive stream. The reader of the bulk extraction
  does read these 4 bytes for the same file.
\<close>

theorem C5_gnrl_raw_at_failing_input:
  "Archive_extract codecs0 always_writable (archive_of TYPE_FALLOUT4 3) (general_file 0 8 4)
     ''out'' =
   (Inr ERROR_NONE, [], open_stream archive_bytes) \<and>
   fst (readFiles_step codecs0 (archive_of TYPE_FALLOUT4 3) (general_file 0 8 4)) =
     Inr (Some \<lparr>fi_file = general_file 0 8 4, fi_data = Some ([11, 12, 13, 14], 4)\<rparr>)"
  by (simp add: Archive_extract_def always_writable_def compressed_def archive_of_def
      general_file_def File_new_def extractDirect_def readFiles_step_def is_ba2_type_def
      seekg_def open_stream_def read_new_buffer_def stream_read_def archive_bytes_def Let_def)

text \<open>
  C10: for every file whose stored size is 0, \<open>extractDirect\<close> and \<open>extractCompressed\<close>
  return \<open>ERROR_NONE\<close> at once: the output file and the archive stream are as before,
  whatever the archive type and whether or not the file has texture chunks.
\<close>

theorem C10_empty_file_returns_at_once:
  assumes "m_FileSize file = 0"
  shows "extractDirect a file outFile = (Inr ERROR_NONE, outFile, m_File a) \<and>
         extractCompressed c a file outFile = (Inr ERROR_NONE, outFile, m_File a)"
  using assms by (simp add: extractDirect_def extractCompressed_def)

theorem C10_empty_file_returns_at_once_witness:
  "extractDirect (archive_of TYPE_FALLOUT4 3) texture_bc7 [] =
     (Inr ERROR_NONE, [], open_stream archive_bytes) \<and>
   extractCompressed codecs0 (archive_of TYPE_FALLOUT4 3) texture_bc7 [] =
     (Inr ERROR_NONE, [], open_stream archive_bytes)"
proof -
  have "m_FileSize texture_bc7 = 0"
    by (simp add: texture_bc7_def File_new_def)
  then show ?thesis
    using C10_empty_file_returns_at_once
      [of texture_bc7 "archive_of TYPE_FALLOUT4 3" "[]" codecs0]
    by (simp add: archive_of_def)
qed

section \<open>Properties of the name prefix\<close>

lemma ucast_up_size: "unat (ucast (x :: 32 word) :: 64 word) = unat x"
proof -
  have "unat x < 2 ^ 32" using unsigned_less [of x, where 'a = nat] by simp
  then show ?thesis by (simp add: unsigned_ucast_eq take_bit_eq_mod)
qed

lemma ucast_down_size:
  fixes x :: "64 word"
  assumes "unat x < 2 ^ 32"
  shows "unat (ucast x :: 32 word) = unat x"
  using assms by (simp add: unsigned_ucast_eq take_bit_eq_mod)

lemma prefix_size:
  fixes stored :: "32 word"
  assumes "n < unat stored"
  shows "unat ((ucast stored :: 64 word) - of_nat (n + 1)) = unat stored - (1 + n)"
proof -
  have s: "unat stored < 2 ^ 32" using unsigned_less [of stored, where 'a = nat] by simp
  have 1: "unat (of_nat (n + 1) :: 64 word) = n + 1"
    using assms s by (simp add: unat_of_nat del: of_nat_Suc of_nat_add)
  have 2: "unat (ucast stored :: 64 word) = unat stored"
    by (rule ucast_up_size)
  have "(of_nat (n + 1) :: 64 word) \<le> ucast stored"
    using 1 2 assms by (simp add: word_le_nat_alt del: of_nat_Suc of_nat_add)
  then show ?thesis
    using 1 2 by (simp add: unat_sub del: of_nat_Suc of_nat_add)
qed

text \<open>
  The single-file extraction consumes the prefix through \<open>skip_name_prefix\<close>, with the
  same result for the size that is left.
\<close>

lemma skip_name_prefix_size:
  assumes "namePrefixed a" and "readBString f = (Inr fullName, f1)"
    and "length fullName < unat sz"
  shows "\<exists>n. skip_name_prefix a sz f = (Inr (Some n), f1) \<and>
             unat n = unat sz - (1 + length fullName)"
proof -
  have s: "unat sz < 2 ^ 32" using unsigned_less [of sz, where 'a = nat] by simp
  have 1: "unat (of_nat (length fullName + 1) :: 32 word) = length fullName + 1"
    using assms(3) s by (simp add: unat_of_nat del: of_nat_Suc of_nat_add)
  then have "(of_nat (length fullName + 1) :: 32 word) \<le> sz"
    using assms(3) by (simp add: word_le_nat_alt del: of_nat_Suc of_nat_add)
  then have "unat (sz - of_nat (length fullName + 1)) = unat sz - (1 + length fullName)"
    using 1 by (simp add: unat_sub del: of_nat_Suc of_nat_add)
  then show ?thesis
    using assms by (simp add: skip_name_prefix_def del: of_nat_Suc of_nat_add)
qed

lemma example_name_prefix:
  "readBString (open_stream archive_bytes) =
     (Inr (bytes_string [0x61, 0x62, 0x63]), open_stream archive_bytes\<lparr>gpos := 4\<rparr>)"
  by (simp add: readBString_def bindS_def readUChar_def readType_def returnS_def
      stream_read_def open_stream_def archive_bytes_def le_nat_def)

lemma example_uncompressed_size:
  "readUInt (open_stream archive_bytes\<lparr>gpos := 4\<rparr>) =
     (Inr 8, open_stream archive_bytes\<lparr>gpos := 8\<rparr>)"
  by (simp add: readUInt_def bindS_def readType_def returnS_def stream_read_def
      open_stream_def archive_bytes_def le_nat_def)

lemma example_archives:
  "namePrefixed (archive_of TYPE_FALLOUT3 0x103)"
  "namePrefixed (archive_of TYPE_SKYRIMSE 0x107)"
  "compressed (archive_of TYPE_SKYRIMSE 0x107) (general_file 12 0 0)"
  "\<not> compressed (archive_of TYPE_FALLOUT3 0x103) (general_file 8 0 0)"
  "namePrefixed (archive_of TYPE_FALLOUT3 0x107)"
  "compressed (archive_of TYPE_FALLOUT3 0x107) (general_file 12 0 0)"
  by (simp_all add: namePrefixed_def archive_of_def FLAG_NAMEPREFIXED_def compressed_def
      general_file_def File_new_def compressToggled_def defaultCompressed_def
      FLAG_DEFAULTCOMPRESSED_def)

text \<open>
  C6, as the claim states it, fails: in a SkyrimSE archive with the flags name-prefixed
  and default-compressed, a file of stored size 12 whose data starts with the prefix
  \<open>abc\<close> (length byte 3) reaches the LZ4 decompressor with 4 bytes, not with
  \<open>12 - (1 + 3) = 8\<close>: the 4 bytes of the uncompressed size are consumed as well.
\<close>

theorem C6_skyrimse_compressed_counterexample:
  "fst (readFiles_step codecs0 (archive_of TYPE_SKYRIMSE 0x107) (general_file 12 0 0)) =
     Inr (Some \<lparr>fi_file = general_file 12 0 0\<lparr>m_UncompressedFileSize := 8\<rparr>,
                 fi_data = Some ([11, 12, 13, 14], 4)\<rparr>) \<and>
   unat (4 :: BSAULong) \<noteq>
     unat (m_FileSize (general_file 12 0 0)) - (1 + length (bytes_string [0x61, 0x62, 0x63]))"
  by (simp add: readFiles_step_def Let_def is_ba2_type_def archive_of_def general_file_def
      File_new_def readBString_def bindS_def readUChar_def readUInt_def readType_def
      returnS_def stream_read_def seekg_def open_stream_def archive_bytes_def le_nat_def
      bytes_string_def read_new_buffer_def namePrefixed_def FLAG_NAMEPREFIXED_def
      compressed_def compressToggled_def defaultCompressed_def FLAG_DEFAULTCOMPRESSED_def)

text \<open>
  When the stored size of a compressed SkyrimSE file has no room for the 4 bytes of the
  uncompressed size after the prefix, \<open>size -= 4\<close> wraps around: with stored size 5
  and the prefix \<open>abc\<close> the length handed on is \<open>0xFFFFFFFD\<close>.
\<close>

lemma example_size_underflow:
  "\<exists>fi f'. readFiles_step codecs0 (archive_of TYPE_SKYRIMSE 0x107) (general_file 5 0 0) =
              (Inr (Some fi), f') \<and>
           map_option snd (fi_data fi) = Some 0xFFFFFFFD"
  by (simp add: readFiles_step_def Let_def is_ba2_type_def archive_of_def general_file_def
      File_new_def readBString_def bindS_def readUChar_def readUInt_def readType_def
      returnS_def stream_read_def seekg_def open_stream_def archive_bytes_def le_nat_def
      bytes_string_def namePrefixed_def FLAG_NAMEPREFIXED_def
      compressed_def compressToggled_def defaultCompressed_def FLAG_DEFAULTCOMPRESSED_def
      split: prod.splits)

text \<open>
  C6, amended: for every file without texture chunks of an older-layout archive with the
  name-prefixed flag \<open>0x100\<close> set and variant other than Oblivion, given that the BString
  name prefix is read and is shorter than the stored size, the reader of the bulk
  extraction (\<open>readFiles\<close>) and the single-file extraction of a compressed file
  (\<open>extractCompressed\<close>) consume the prefix, and the length of the payload that they
  hand on to the writer or decompressor equals \<open>stored_size - (1 + prefixLen)\<close>; except
  for a compressed file of a SkyrimSE archive, where, given that the 4 bytes of the
  uncompressed size that follow the prefix are read and that
  \<open>stored_size \<ge> 1 + prefixLen + 4\<close>, these 4 bytes are consumed as well and the length
  handed to the LZ4 decompressor is \<open>stored_size - (1 + prefixLen) - 4\<close>. The
  single-file extraction of a raw file (\<open>extractDirect\<close>) is not part of the statement.
\<close>

theorem C6_name_prefix_payload_length:
  assumes ba2: "\<not> is_ba2_type (m_Type a)"
    and pre: "namePrefixed a"
    and tex: "m_TextureChunks file = []"
  shows
    "(readBString (seekg (unat (m_DataOffset file)) (m_File a)) = (Inr fullName, f1) \<and>
      length fullName < unat (m_FileSize file) \<longrightarrow>
        (\<not> (m_Type a = TYPE_SKYRIMSE \<and> compressed a file) \<longrightarrow>
           (\<exists>buffer n f'.
              readFiles_step c a file =
                (Inr (Some \<lparr>fi_file = file, fi_data = Some (buffer, n)\<rparr>), f') \<and>
              length buffer = unat n \<and>
              unat n = unat (m_FileSize file) - (1 + length fullName))) \<and>
        (m_Type a = TYPE_SKYRIMSE \<and> compressed a file \<and>
         readUInt f1 = (Inr u, f2) \<and>
         1 + length fullName + 4 \<le> unat (m_FileSize file) \<longrightarrow>
           (\<exists>buffer n f'.
              readFiles_step c a file =
                (Inr (Some \<lparr>fi_file = file\<lparr>m_UncompressedFileSize := u\<rparr>,
                            fi_data = Some (buffer, n)\<rparr>), f') \<and>
              length buffer = unat n \<and>
              unat n = unat (m_FileSize file) - (1 + length fullName) - 4))) \<and>
     (compressed a file \<and>
      readBString (seekg (unat (m_DataOffset file)) (clear (m_File a))) = (Inr fullName', g1) \<and>
      length fullName' < unat (m_FileSize file) \<longrightarrow>
        (m_Type a \<noteq> TYPE_SKYRIMSE \<longrightarrow>
           (\<exists>inBuffer n g2.
              read_new_buffer (unat n) g1 = (inBuffer, g2) \<and>
              extractCompressed c a file outFile = inflate_and_write c inBuffer n 0 outFile g2 \<and>
              length inBuffer = unat n \<and>
              unat n = unat (m_FileSize file) - (1 + length fullName'))) \<and>
        (m_Type a = TYPE_SKYRIMSE \<and>
         readUInt g1 = (Inr u', g2) \<and>
         1 + length fullName' + 4 \<le> unat (m_FileSize file) \<longrightarrow>
           (\<exists>inBuffer (n :: BSAULong) g3.
              read_new_buffer (unat n) g2 = (inBuffer, g3) \<and>
              extractCompressed c a file outFile =
                (Inr ERROR_NONE,
                 outFile @ take (unat u') (LZ4F_decompress c inBuffer (unat u')), g3) \<and>
              length inBuffer = unat n \<and>
              unat n = unat (m_FileSize file) - (1 + length fullName') - 4)))"
proof -
  have bulk_plain: "\<exists>buffer n f'.
        readFiles_step c a file =
          (Inr (Some \<lparr>fi_file = file, fi_data = Some (buffer, n)\<rparr>), f') \<and>
        length buffer = unat n \<and>
        unat n = unat (m_FileSize file) - (1 + length fullName)"
    if name: "readBString (seekg (unat (m_DataOffset file)) (m_File a)) = (Inr fullName, f1)"
      and short: "length fullName < unat (m_FileSize file)"
      and plain: "\<not> (m_Type a = TYPE_SKYRIMSE \<and> compressed a file)"
  proof -
    define sz1 :: "64 word"
      where "sz1 = ucast (m_FileSize file) - of_nat (length fullName + 1)"
    have sz1: "unat sz1 = unat (m_FileSize file) - (1 + length fullName)"
      unfolding sz1_def using short by (rule prefix_size)
    have "unat (m_FileSize file) < 2 ^ 32"
      using unsigned_less [of "m_FileSize file", where 'a = nat] by simp
    then have sz1_small: "unat sz1 < 2 ^ 32"
      using sz1 by simp
    obtain buffer f' where rb: "read_new_buffer (unat sz1) f1 = (buffer, f')"
      by (cases "read_new_buffer (unat sz1) f1")
    then have len: "length buffer = unat sz1"
      using read_new_buffer_length [of "unat sz1" f1] by simp
    have "readFiles_step c a file =
        (Inr (Some \<lparr>fi_file = file, fi_data = Some (buffer, ucast sz1)\<rparr>), f')"
      using ba2 pre tex name short plain rb
      by (auto simp add: readFiles_step_def Let_def sz1_def ucast_up_size
          simp del: of_nat_Suc of_nat_add)
    moreover have "unat (ucast sz1 :: 32 word) = unat sz1"
      using sz1_small by (rule ucast_down_size)
    ultimately show ?thesis using len sz1 by auto
  qed
  have bulk_se: "\<exists>buffer n f'.
        readFiles_step c a file =
          (Inr (Some \<lparr>fi_file = file\<lparr>m_UncompressedFileSize := u\<rparr>,
                      fi_data = Some (buffer, n)\<rparr>), f') \<and>
        length buffer = unat n \<and>
        unat n = unat (m_FileSize file) - (1 + length fullName) - 4"
    if name: "readBString (seekg (unat (m_DataOffset file)) (m_File a)) = (Inr fullName, f1)"
      and short: "length fullName < unat (m_FileSize file)"
      and se: "m_Type a = TYPE_SKYRIMSE \<and> compressed a file"
      and u: "readUInt f1 = (Inr u, f2)"
      and big: "1 + length fullName + 4 \<le> unat (m_FileSize file)"
  proof -
    define sz1 :: "64 word"
      where "sz1 = ucast (m_FileSize file) - of_nat (length fullName + 1)"
    have sz1: "unat sz1 = unat (m_FileSize file) - (1 + length fullName)"
      unfolding sz1_def using short by (rule prefix_size)
    have "unat (m_FileSize file) < 2 ^ 32"
      using unsigned_less [of "m_FileSize file", where 'a = nat] by simp
    then have sz1_small: "unat sz1 < 2 ^ 32"
      using sz1 by simp
    have "(4 :: 64 word) \<le> sz1"
      using sz1 big by (simp add: word_le_nat_alt)
    then have sz2: "unat (sz1 - 4) = unat sz1 - 4"
      by (simp add: unat_sub)
    obtain buffer f' where rb: "read_new_buffer (unat (sz1 - 4)) f2 = (buffer, f')"
      by (cases "read_new_buffer (unat (sz1 - 4)) f2")
    then have len: "length buffer = unat (sz1 - 4)"
      using read_new_buffer_length [of "unat (sz1 - 4)" f2] by simp
    have "readFiles_step c a file =
        (Inr (Some \<lparr>fi_file = file\<lparr>m_UncompressedFileSize := u\<rparr>,
                    fi_data = Some (buffer, ucast (sz1 - 4))\<rparr>), f')"
      using ba2 pre tex name short se rb u
      by (auto simp add: readFiles_step_def Let_def sz1_def ucast_up_size
          simp del: of_nat_Suc of_nat_add)
    moreover have "unat (ucast (sz1 - 4) :: 32 word) = unat (sz1 - 4)"
      using sz1_small sz2 by (intro ucast_down_size) simp
    ultimately show ?thesis using len sz1 sz2 by auto
  qed
  have single_zlib: "\<exists>inBuffer n g2.
        read_new_buffer (unat n) g1 = (inBuffer, g2) \<and>
        extractCompressed c a file outFile = inflate_and_write c inBuffer n 0 outFile g2 \<and>
        length inBuffer = unat n \<and>
        unat n = unat (m_FileSize file) - (1 + length fullName')"
    if name: "readBString (seekg (unat (m_DataOffset file)) (clear (m_File a))) =
                (Inr fullName', g1)"
      and short: "length fullName' < unat (m_FileSize file)"
      and other: "m_Type a \<noteq> TYPE_SKYRIMSE"
  proof -
    obtain n where skip: "skip_name_prefix a (m_FileSize file)
          (seekg (unat (m_DataOffset file)) (clear (m_File a))) = (Inr (Some n), g1)"
      and n: "unat n = unat (m_FileSize file) - (1 + length fullName')"
      using skip_name_prefix_size [OF pre name short] by blast
    obtain inBuffer g2 where rb: "read_new_buffer (unat n) g1 = (inBuffer, g2)"
      by (cases "read_new_buffer (unat n) g1")
    then have len: "length inBuffer = unat n"
      using read_new_buffer_length [of "unat n" g1] by simp
    have nz: "m_FileSize file \<noteq> 0"
      using short by auto
    have "extractCompressed c a file outFile = inflate_and_write c inBuffer n 0 outFile g2"
      using ba2 other skip rb nz by (simp add: extractCompressed_def)
    with rb len n show ?thesis by blast
  qed
  have single_se: "\<exists>inBuffer (n :: BSAULong) g3.
        read_new_buffer (unat n) g2 = (inBuffer, g3) \<and>
        extractCompressed c a file outFile =
          (Inr ERROR_NONE,
           outFile @ take (unat u') (LZ4F_decompress c inBuffer (unat u')), g3) \<and>
        length inBuffer = unat n \<and>
        unat n = unat (m_FileSize file) - (1 + length fullName') - 4"
    if name: "readBString (seekg (unat (m_DataOffset file)) (clear (m_File a))) =
                (Inr fullName', g1)"
      and short: "length fullName' < unat (m_FileSize file)"
      and se: "m_Type a = TYPE_SKYRIMSE"
      and u: "readUInt g1 = (Inr u', g2)"
      and big: "1 + length fullName' + 4 \<le> unat (m_FileSize file)"
  proof -
    obtain inSize where skip: "skip_name_prefix a (m_FileSize file)
          (seekg (unat (m_DataOffset file)) (clear (m_File a))) = (Inr (Some inSize), g1)"
      and inSize: "unat inSize = unat (m_FileSize file) - (1 + length fullName')"
      using skip_name_prefix_size [OF pre name short] by blast
    have "(4 :: 32 word) \<le> inSize"
      using inSize big by (simp add: word_le_nat_alt)
    then have n: "unat (inSize - 4) = unat inSize - 4"
      by (simp add: unat_sub)
    obtain inBuffer g3 where rb: "read_new_buffer (unat (inSize - 4)) g2 = (inBuffer, g3)"
      by (cases "read_new_buffer (unat (inSize - 4)) g2")
    then have len: "length inBuffer = unat (inSize - 4)"
      using read_new_buffer_length [of "unat (inSize - 4)" g2] by simp
    have nz: "m_FileSize file \<noteq> 0"
      using short by auto
    have "extractCompressed c a file outFile =
          (Inr ERROR_NONE,
           outFile @ take (unat u') (LZ4F_decompress c inBuffer (unat u')), g3)"
      using ba2 se skip rb nz u by (simp add: extractCompressed_def)
    moreover have "unat (inSize - 4) = unat (m_FileSize file) - (1 + length fullName') - 4"
      using n inSize by simp
    ultimately show ?thesis using rb len by blast
  qed
  from bulk_plain bulk_se single_zlib single_se show ?thesis
    by blast
qed

theorem C6_name_prefix_payload_length_witness:
  "(\<exists>buffer n f'.
      readFiles_step codecs0 (archive_of TYPE_FALLOUT3 0x103) (general_file 8 0 0) =
        (Inr (Some \<lparr>fi_file = general_file 8 0 0, fi_data = Some (buffer, n)\<rparr>), f') \<and>
      length buffer = unat n \<and> unat n = 4) \<and>
   (\<exists>buffer n f'.
      readFiles_step codecs0 (archive_of TYPE_SKYRIMSE 0x107) (general_file 12 0 0) =
        (Inr (Some \<lparr>fi_file = general_file 12 0 0\<lparr>m_UncompressedFileSize := 8\<rparr>,
                    fi_data = Some (buffer, n)\<rparr>), f') \<and>
      length buffer = unat n \<and> unat n = 4) \<and>
   (\<exists>inBuffer n g2.
      read_new_buffer (unat n) (open_stream archive_bytes\<lparr>gpos := 4\<rparr>) = (inBuffer, g2) \<and>
      extractCompressed codecs0 (archive_of TYPE_FALLOUT3 0x107) (general_file 12 0 0) [] =
        inflate_and_write codecs0 inBuffer n 0 [] g2 \<and>
      length inBuffer = unat n \<and> unat n = 8) \<and>
   (\<exists>inBuffer (n :: BSAULong) g3.
      read_new_buffer (unat n) (open_stream archive_bytes\<lparr>gpos := 8\<rparr>) = (inBuffer, g3) \<and>
      extractCompressed codecs0 (archive_of TYPE_SKYRIMSE 0x107) (general_file 12 0 0) [] =
        (Inr ERROR_NONE, take 8 (LZ4F_decompress codecs0 inBuffer 8), g3) \<and>
      length inBuffer = unat n \<and> unat n = 4)"
proof -
  have name: "readBString (seekg (unat (m_DataOffset (general_file sz 0 0)))
                 (m_File (archive_of t fl))) =
      (Inr (bytes_string [0x61, 0x62, 0x63]), open_stream archive_bytes\<lparr>gpos := 4\<rparr>)"
    for sz t fl
    using example_name_prefix
    by (simp add: general_file_def File_new_def archive_of_def seekg_def open_stream_def)
  have name': "readBString (seekg (unat (m_DataOffset (general_file sz 0 0)))
                 (clear (m_File (archive_of t fl)))) =
      (Inr (bytes_string [0x61, 0x62, 0x63]), open_stream archive_bytes\<lparr>gpos := 4\<rparr>)"
    for sz t fl
    using example_name_prefix
    by (simp add: general_file_def File_new_def archive_of_def seekg_def open_stream_def
        clear_def)
  have 1: "\<exists>buffer n f'.
      readFiles_step codecs0 (archive_of TYPE_FALLOUT3 0x103) (general_file 8 0 0) =
        (Inr (Some \<lparr>fi_file = general_file 8 0 0, fi_data = Some (buffer, n)\<rparr>), f') \<and>
      length buffer = unat n \<and> unat n = 4"
    using C6_name_prefix_payload_length
      [OF _ example_archives(1),
        where ?file = "general_file 8 0 0" and fullName = "bytes_string [0x61, 0x62, 0x63]"
        and ?f1.0 = "open_stream archive_bytes\<lparr>gpos := 4\<rparr>" and c = codecs0]
      example_archives(4) name [of 8 TYPE_FALLOUT3 "0x103"]
    by (simp add: is_ba2_type_def archive_of_def general_file_def File_new_def
        bytes_string_def)
  have 2: "\<exists>buffer n f'.
      readFiles_step codecs0 (archive_of TYPE_SKYRIMSE 0x107) (general_file 12 0 0) =
        (Inr (Some \<lparr>fi_file = general_file 12 0 0\<lparr>m_UncompressedFileSize := 8\<rparr>,
                    fi_data = Some (buffer, n)\<rparr>), f') \<and>
      length buffer = unat n \<and> unat n = 4"
    using C6_name_prefix_payload_length
      [OF _ example_archives(2),
        where ?file = "general_file 12 0 0" and fullName = "bytes_string [0x61, 0x62, 0x63]"
        and ?f1.0 = "open_stream archive_bytes\<lparr>gpos := 4\<rparr>" and c = codecs0
        and u = 8 and ?f2.0 = "open_stream archive_bytes\<lparr>gpos := 8\<rparr>"]
      example_archives(3) name [of 12 TYPE_SKYRIMSE "0x107"] example_uncompressed_size
    by (simp add: is_ba2_type_def archive_of_def general_file_def File_new_def
        bytes_string_def)
  have 3: "\<exists>inBuffer n g2.
      read_new_buffer (unat n) (open_stream archive_bytes\<lparr>gpos := 4\<rparr>) = (inBuffer, g2) \<and>
      extractCompressed codecs0 (archive_of TYPE_FALLOUT3 0x107) (general_file 12 0 0) [] =
        inflate_and_write codecs0 inBuffer n 0 [] g2 \<and>
      length inBuffer = unat n \<and> unat n = 8"
    using C6_name_prefix_payload_length
      [OF _ example_archives(5),
        where ?file = "general_file 12 0 0" and fullName' = "bytes_string [0x61, 0x62, 0x63]"
        and ?g1.0 = "open_stream archive_bytes\<lparr>gpos := 4\<rparr>" and c = codecs0
        and outFile = "[]"]
      example_archives(6) name' [of 12 TYPE_FALLOUT3 "0x107"]
    by (simp add: is_ba2_type_def archive_of_def general_file_def File_new_def
        bytes_string_def)
  have 4: "\<exists>inBuffer (n :: BSAULong) g3.
      read_new_buffer (unat n) (open_stream archive_bytes\<lparr>gpos := 8\<rparr>) = (inBuffer, g3) \<and>
      extractCompressed codecs0 (archive_of TYPE_SKYRIMSE 0x107) (general_file 12 0 0) [] =
        (Inr ERROR_NONE, take 8 (LZ4F_decompress codecs0 inBuffer 8), g3) \<and>
      length inBuffer = unat n \<and> unat n = 4"
    using C6_name_prefix_payload_length
      [OF _ example_archives(2),
        where ?file = "general_file 12 0 0" and fullName' = "bytes_string [0x61, 0x62, 0x63]"
        and ?g1.0 = "open_stream archive_bytes\<lparr>gpos := 4\<rparr>" and c = codecs0
        and outFile = "[]" and u' = 8
        and ?g2.0 = "open_stream archive_bytes\<lparr>gpos := 8\<rparr>"]
      example_archives(3) name' [of 12 TYPE_SKYRIMSE "0x107"] example_uncompressed_size
    by (simp add: is_ba2_type_def archive_of_def general_file_def File_new_def
        bytes_string_def)
  from 1 2 3 4 show ?thesis by blast
qed


section \<open>Properties of the folder tree\<close>

lemma set_SubFolders_sel [simp]:
  "m_SubFolders (set_SubFolders subs t) = subs"
  "m_SubFoldersByName (set_SubFolders subs t) = m_SubFoldersByName t"
  "m_Files (set_SubFolders subs t) = m_Files t"
  by (cases t; simp)+

lemma set_SubFolders_id [simp]: "set_SubFolders (m_SubFolders t) t = t"
  by (cases t) simp

lemma push_SubFolder_sel [simp]:
  "m_SubFolders (push_SubFolder k child t) = m_SubFolders t @ [child]"
  "map_of (m_SubFoldersByName (push_SubFolder k child t)) =
     (map_of (m_SubFoldersByName t))(k \<mapsto> length (m_SubFolders t))"
  by (cases t; simp add: update_conv')+

lemma push_File_sel [simp]:
  "m_SubFolders (push_File f t) = m_SubFolders t"
  "m_SubFoldersByName (push_File f t) = m_SubFoldersByName t"
  "m_Files (push_File f t) = m_Files t @ [f]"
  "strip_files (push_File f t) = strip_files t"
  by (cases t; simp)+

lemma addOrFindFolderInt_lookup:
  "addOrFindFolderInt h t ds fld = Inr (t1, p) \<Longrightarrow> lookup_path t1 ds = Some p"
proof (induction h t ds fld arbitrary: t1 p rule: addOrFindFolderInt.induct)
  case (1 hash this folder)
  then show ?case by simp
next
  case (2 hash this firstStr remaining folder)
  show ?case
  proof (cases "map_of (m_SubFoldersByName this) firstStr")
    case None
    show ?thesis
    proof (cases "remaining = []")
      case True
      with None "2.prems" show ?thesis by auto
    next
      case False
      with None "2.prems" obtain dummy p' where
        r: "addOrFindFolderInt hash (set_FolderName firstStr (Folder_new hash)) remaining
              (set_FolderName (path_string remaining) folder) = Inr (dummy, p')"
        and t1: "t1 = push_SubFolder firstStr dummy this" and p: "p = length (m_SubFolders this) # p'"
        by (auto split: sum.splits)
      from "2.IH"(1) [OF None False r] have "lookup_path dummy remaining = Some p'" .
      with t1 p show ?thesis by simp
    qed
  next
    case (Some i)
    show ?thesis
    proof (cases "remaining = []")
      case True
      with Some "2.prems" show ?thesis by (auto split: if_splits)
    next
      case False
      with Some "2.prems" obtain child p' where
        i: "i < length (m_SubFolders this)"
        and r: "addOrFindFolderInt hash (m_SubFolders this ! i) remaining
              (set_FolderName (path_string remaining) folder) = Inr (child, p')"
        and t1: "t1 = set_SubFolders ((m_SubFolders this)[i := child]) this" and p: "p = i # p'"
        by (auto split: sum.splits if_splits)
      from "2.IH"(2) [OF Some i False r] have "lookup_path child remaining = Some p'" .
      with t1 p i Some show ?thesis by simp
    qed
  qed
qed

lemma lookup_addOrFindFolderInt:
  "lookup_path t ds = Some p \<Longrightarrow> ds \<noteq> [] \<Longrightarrow> addOrFindFolderInt h t ds fld = Inr (t, p)"
proof (induction ds arbitrary: t p fld)
  case Nil
  then show ?case by simp
next
  case (Cons firstStr remaining)
  from Cons.prems(1) obtain i p' where
    m: "map_of (m_SubFoldersByName t) firstStr = Some i" and i: "i < length (m_SubFolders t)"
    and l: "lookup_path (m_SubFolders t ! i) remaining = Some p'" and p: "p = i # p'"
    by (auto split: option.splits if_splits)
  show ?case
  proof (cases "remaining = []")
    case True
    with m i l p show ?thesis by simp
  next
    case False
    from Cons.IH [OF l False]
    have "addOrFindFolderInt h (m_SubFolders t ! i) remaining
            (set_FolderName (path_string remaining) fld) = Inr (m_SubFolders t ! i, p')" .
    with m i p False show ?thesis by simp
  qed
qed

lemma lookup_update_at:
  assumes g: "\<And>x. m_SubFolders (g x) = m_SubFolders x"
    "\<And>x. m_SubFoldersByName (g x) = m_SubFoldersByName x"
  shows "lookup_path (update_at p g t) ds = lookup_path t ds"
proof (induction ds arbitrary: t p)
  case Nil
  then show ?case by simp
next
  case (Cons firstStr remaining)
  show ?case
  proof (cases p)
    case Nil
    then show ?thesis by (auto simp: g split: option.splits)
  next
    case (Cons i p')
    have nth: "(m_SubFolders t)[i := u] ! j = (if j = i then u else m_SubFolders t ! j)"
      if "j < length (m_SubFolders t)" for j u
      using that by (cases "j = i") simp_all
    show ?thesis
      using Cons Cons.IH [of p' "m_SubFolders t ! i"]
      by (auto simp: nth split: option.splits)
  qed
qed

lemma strip_files_set_SubFolders:
  "strip_files (set_SubFolders subs t) = set_SubFolders (map strip_files subs) (strip_files t)"
  by (cases t) simp

lemma m_SubFolders_strip_files: "m_SubFolders (strip_files t) = map strip_files (m_SubFolders t)"
  by (cases t) simp

lemma strip_update_at:
  assumes g: "\<And>x. strip_files (g x) = strip_files x"
  shows "strip_files (update_at p g t) = strip_files t"
proof (induction p arbitrary: t)
  case Nil
  then show ?case by (simp add: g)
next
  case (Cons i p)
  have "map strip_files ((m_SubFolders t)[i := update_at p g (m_SubFolders t ! i)]) =
        map strip_files (m_SubFolders t)"
  proof (cases "i < length (m_SubFolders t)")
    case True
    then show ?thesis
      by (simp add: map_update Cons.IH list_update_same_conv)
  next
    case False
    then show ?thesis by (simp add: list_update_beyond)
  qed
  then show ?case
    by (simp add: strip_files_set_SubFolders flip: m_SubFolders_strip_files)
qed

lemma folder_at_update_at:
  "lookup_path t ds = Some p \<Longrightarrow> folder_at (update_at p g t) p = g (folder_at t p)"
proof (induction ds arbitrary: t p)
  case Nil
  then show ?case by simp
next
  case (Cons firstStr remaining)
  then show ?case
    by (auto split: option.splits if_splits)
qed


lemma addOrFindFolderInt_nonempty: "addOrFindFolderInt h t ds fld = Inr r \<Longrightarrow> ds \<noteq> []"
  by (cases ds) simp_all

text \<open>
  C8: inserting two files with the same folder path (as \<open>a/b/c\<close>) with
  \<open>addFolderFromFile\<close>, one after the other: the second insertion returns the folder
  of the first and adds no folder, so the tree has the same folders after it as before
  (one node for each segment of the path, reached through the maps of first path
  components), and the file of the second insertion is attached to the deepest folder
  next to the file of the first.
\<close>

theorem C8_insert_same_path_twice:
  assumes same: "parent_path path2 = parent_path path1"
    and ins1: "addFolderFromFile hash root path1 s1 o1 u1 h1 c1 = Inr (t1, p1)"
    and ins2: "addFolderFromFile hash t1 path2 s2 o2 u2 h2 c2 = Inr (t2, p2)"
  shows "p2 = p1 \<and> strip_files t2 = strip_files t1 \<and>
         lookup_path t1 (parent_path path1) = Some p1 \<and>
         lookup_path t2 (parent_path path1) = Some p1 \<and>
         (\<exists>files.
            m_Files (folder_at t1 p1) = files @ [File_new hash (filename path1) s1 o1 u1 h1 c1] \<and>
            m_Files (folder_at t2 p1) =
              files @ [File_new hash (filename path1) s1 o1 u1 h1 c1,
                       File_new hash (filename path2) s2 o2 u2 h2 c2])"
proof -
  define ds where "ds = parent_path path1"
  define f1 where "f1 = File_new hash (filename path1) s1 o1 u1 h1 c1"
  define f2 where "f2 = File_new hash (filename path2) s2 o2 u2 h2 c2"
  from ins1 obtain t0 where
    a1: "addOrFindFolderInt hash root ds
           (set_FolderName (path_string ds) (set_NameHash (hash path1) (Folder_new hash))) =
         Inr (t0, p1)"
    and t1: "t1 = update_at p1 (push_File f1) t0"
    by (auto simp: addFolderFromFile_def Let_def ds_def f1_def split: sum.splits)
  have ne: "ds \<noteq> []" using a1 by (rule addOrFindFolderInt_nonempty)
  have l0: "lookup_path t0 ds = Some p1" using a1 by (rule addOrFindFolderInt_lookup)
  have l1: "lookup_path t1 ds = Some p1"
    unfolding t1 using l0 by (simp add: lookup_update_at)
  have a2: "addOrFindFolderInt hash t1 ds fld = Inr (t1, p1)" for fld
    using l1 ne by (rule lookup_addOrFindFolderInt)
  from ins2 have p2: "p2 = p1" and t2: "t2 = update_at p1 (push_File f2) t1"
    by (auto simp: addFolderFromFile_def Let_def same a2 f2_def simp flip: ds_def)
  have l2: "lookup_path t2 ds = Some p1"
    unfolding t2 using l1 by (simp add: lookup_update_at)
  have s: "strip_files t2 = strip_files t1"
    unfolding t2 by (simp add: strip_update_at)
  have at1: "folder_at t1 p1 = push_File f1 (folder_at t0 p1)"
    unfolding t1 using l0 by (rule folder_at_update_at)
  have at2: "folder_at t2 p1 = push_File f2 (folder_at t1 p1)"
    unfolding t2 using l1 by (rule folder_at_update_at)
  have "m_Files (folder_at t1 p1) = m_Files (folder_at t0 p1) @ [f1] \<and>
        m_Files (folder_at t2 p1) = m_Files (folder_at t0 p1) @ [f1, f2]"
    by (simp add: at1 at2)
  with p2 s l1 l2 show ?thesis
    unfolding ds_def f1_def f2_def by blast
qed

lemma example_paths:
  "parent_path ''a/b/c/x.nif'' = [''a'', ''b'', ''c'']"
  "parent_path ''a/b/c/y.nif'' = [''a'', ''b'', ''c'']"
  "filename ''a/b/c/x.nif'' = ''x.nif''"
  "filename ''a/b/c/y.nif'' = ''y.nif''"
  by (simp_all add: parent_path_def filename_def has_filename_def path_components_def
      is_separator_def)

lemma example_first:
  "addFolderFromFile hash0 (Folder_new hash0) ''a/b/c/x.nif'' 1 2 3 no_texture_header [] =
     Inr (example_tree [example_file_x], [0, 0, 0])"
  by (simp add: addFolderFromFile_def example_paths Folder_new_def hash0_def example_tree_def
      example_file_x_def)

lemma example_second:
  "addFolderFromFile hash0 (example_tree [example_file_x]) ''a/b/c/y.nif'' 4 5 6
     no_texture_header [] =
     Inr (example_tree [example_file_x, example_file_y], [0, 0, 0])"
  by (simp add: addFolderFromFile_def example_paths Folder_new_def hash0_def example_tree_def
      example_file_x_def example_file_y_def)

theorem C8_insert_same_path_twice_witness:
  "addFolderFromFile hash0 (Folder_new hash0) ''a/b/c/x.nif'' 1 2 3 no_texture_header [] =
     Inr (example_tree [example_file_x], [0, 0, 0]) \<and>
   addFolderFromFile hash0 (example_tree [example_file_x]) ''a/b/c/y.nif'' 4 5 6
     no_texture_header [] =
     Inr (example_tree [example_file_x, example_file_y], [0, 0, 0]) \<and>
   strip_files (example_tree [example_file_x, example_file_y]) =
     strip_files (example_tree [example_file_x]) \<and>
   lookup_path (example_tree [example_file_x, example_file_y]) [''a'', ''b'', ''c''] =
     Some [0, 0, 0] \<and>
   m_Files (folder_at (example_tree [example_file_x, example_file_y]) [0, 0, 0]) =
     [example_file_x, example_file_y]"
proof -
  have same: "parent_path ''a/b/c/y.nif'' = parent_path ''a/b/c/x.nif''"
    by (simp add: example_paths)
  show ?thesis
    using C8_insert_same_path_twice [OF same example_first example_second]
      example_first example_second
    by (simp add: example_paths example_tree_def)
qed

section \<open>Properties of the writer\<close>

lemma stream_write_append:
  "stream_write b2 (stream_write b1 s) = stream_write (b1 @ b2) s"
proof -
  have "min (length (obuf s)) (opos s) + (opos s - length (obuf s)) = opos s"
    by arith
  then show ?thesis
    by (simp add: stream_write_def add.assoc) (simp add: ac_simps)
qed

lemma stream_write_empty_stream:
  "stream_write bs \<lparr>obuf = [], opos = 0\<rparr> = \<lparr>obuf = bs, opos = length bs\<rparr>"
  by (simp add: stream_write_def)

lemma length_le_bytes [simp]: "length (le_bytes n v) = n"
  by (induction n arbitrary: v) simp_all

lemma length_u32_bytes [simp]: "length (u32_bytes w) = 4"
  by (simp add: u32_bytes_def)

lemma length_u64_bytes [simp]: "length (u64_bytes w) = 8"
  by (simp add: u64_bytes_def)

lemma Folder_writeHeader_bytes:
  "Folder_writeHeader folder (stream_write pre s) =
     stream_write (pre @ folder_header_bytes folder) s"
  by (simp add: Folder_writeHeader_def writeULong_def writeHash_def stream_write_append
      folder_header_bytes_def)

lemma File_writeHeader_bytes:
  "File_writeHeader file (stream_write pre s) = stream_write (pre @ file_header_bytes file) s"
  by (simp add: File_writeHeader_def writeULong_def writeHash_def stream_write_append
      file_header_bytes_def)

lemma fold_File_writeHeader:
  "fold File_writeHeader files (stream_write pre s) =
     stream_write (pre @ concat (map file_header_bytes files)) s"
  by (induction files arbitrary: pre) (simp_all add: File_writeHeader_bytes)

lemma writeHeader_pass_bytes:
  "writeHeader_pass folders (stream_write pre s) =
     stream_write (pre @ concat (map (folder_header_bytes \<circ> snd) folders)) s"
  by (induction folders arbitrary: pre) (auto simp: Folder_writeHeader_bytes)

lemma opos_stream_write [simp]: "opos (stream_write bs s) = opos s + length bs"
  by (simp add: stream_write_def)

lemma length_file_header_bytes [simp]: "length (file_header_bytes file) = 16"
  by (simp add: file_header_bytes_def)

lemma length_folder_header_bytes [simp]: "length (folder_header_bytes folder) = 16"
  by (simp add: folder_header_bytes_def)

lemma length_concat_file_headers [simp]:
  "length (concat (map file_header_bytes files)) = 16 * length files"
  by (induction files) simp_all

lemma length_block_bytes [simp]: "length (block_bytes pf) = block_size pf"
  by (simp add: block_bytes_def block_size_def string_bytes_def)

lemma writeData_pass_bytes:
  "writeData_pass fnl folders (stream_write pre s) =
     (record_offsets (opos s + length pre) fnl folders,
      stream_write (pre @ concat (map block_bytes folders)) s)"
proof (induction folders arbitrary: pre)
  case Nil
  then show ?case by simp
next
  case (Cons pf folders)
  obtain path folder where pf: "pf = (path, folder)" by (cases pf)
  have 1: "Folder_writeData path fnl folder (stream_write pre s) =
      (set_OffsetWrite (of_nat (opos s + length pre) + fnl) folder,
       stream_write (pre @ block_bytes pf) s)"
    by (simp add: Folder_writeData_def tellp_def writeBString_def stream_write_append
        fold_File_writeHeader block_bytes_def pf)
  show ?case
    using Cons.IH [of "pre @ block_bytes pf"]
    by (simp add: pf [symmetric] 1 add.assoc) (simp add: pf 1 add.assoc)
qed

lemma writeZString_pass_bytes:
  "writeZString_pass names (stream_write pre s) = stream_write (pre @ name_table names) s"
  by (induction names arbitrary: pre)
     (simp_all add: name_table_def writeZString_def stream_write_append)

lemma length_copied_payloads:
  "length (fst (copied_payloads files src)) = payload_size files"
proof (induction files arbitrary: src)
  case Nil
  then show ?case by (simp add: payload_size_def)
next
  case (Cons fl files)
  obtain payload src' where r: "read_new_buffer (unat (m_FileSize fl))
      (seekg (unat (m_DataOffset fl)) src) = (payload, src')"
    by (cases "read_new_buffer (unat (m_FileSize fl)) (seekg (unat (m_DataOffset fl)) src)")
  then have "length payload = unat (m_FileSize fl)"
    using read_new_buffer_length
      [of "unat (m_FileSize fl)" "seekg (unat (m_DataOffset fl)) src"] by simp
  then show ?case
    using Cons.IH [of src'] r by (auto simp: payload_size_def split: prod.splits)
qed

lemma copied_payloads_append:
  "copied_payloads (xs @ ys) src =
     (fst (copied_payloads xs src) @ fst (copied_payloads ys (snd (copied_payloads xs src))),
      snd (copied_payloads ys (snd (copied_payloads xs src))))"
  by (induction xs arbitrary: src) (simp_all split: prod.splits)

lemma writeFileData_loop_bytes:
  "writeFileData_loop files (src, stream_write pre s) =
     (ERROR_NONE, record_file_offsets (opos s + length pre) files,
      snd (copied_payloads files src),
      stream_write (pre @ fst (copied_payloads files src)) s)"
proof (induction files arbitrary: pre src)
  case Nil
  then show ?case by simp
next
  case (Cons fl files)
  obtain payload src' where r: "read_new_buffer (unat (m_FileSize fl))
      (seekg (unat (m_DataOffset fl)) src) = (payload, src')"
    by (cases "read_new_buffer (unat (m_FileSize fl)) (seekg (unat (m_DataOffset fl)) src)")
  then have len: "length payload = unat (m_FileSize fl)"
    using read_new_buffer_length
      [of "unat (m_FileSize fl)" "seekg (unat (m_DataOffset fl)) src"] by simp
  have 1: "File_writeData fl (src, stream_write pre s) =
      (ERROR_NONE, fl\<lparr>m_DataOffsetWrite := of_nat (opos s + length pre)\<rparr>, src',
       stream_write (pre @ payload) s)"
    by (simp add: File_writeData_def r tellp_def stream_write_append)
  show ?case
    using Cons.IH [of src' "pre @ payload"] r len
    by (simp add: 1 add.assoc split: prod.splits)
qed

lemma writeFileData_pass_bytes:
  "writeFileData_pass folders (src, stream_write pre s) =
     (record_data_offsets (opos s + length pre) folders,
      snd (copied_payloads (all_files folders) src),
      stream_write (pre @ fst (copied_payloads (all_files folders) src)) s)"
proof (induction folders arbitrary: pre src)
  case Nil
  then show ?case by (simp add: all_files_def)
next
  case (Cons pf folders)
  obtain path folder where pf: "pf = (path, folder)" by (cases pf)
  define D where "D = fst (copied_payloads (m_Files folder) src)"
  define src' where "src' = snd (copied_payloads (m_Files folder) src)"
  have len: "length D = payload_size (m_Files folder)"
    unfolding D_def by (rule length_copied_payloads)
  have 1: "Folder_writeFileData folder (src, stream_write pre s) =
      (ERROR_NONE, set_Files (record_file_offsets (opos s + length pre) (m_Files folder)) folder,
       src', stream_write (pre @ D) s)"
    by (simp add: Folder_writeFileData_def writeFileData_loop_bytes D_def src'_def)
  have 2: "copied_payloads (all_files ((path, folder) # folders)) src =
      (D @ fst (copied_payloads (all_files folders) src'),
       snd (copied_payloads (all_files folders) src'))"
    by (simp add: all_files_def copied_payloads_append D_def src'_def)
  show ?case
    using Cons.IH [of src' "pre @ D"] len
    by (simp add: pf 1 2 add.assoc)
qed

lemma set_OffsetWrite_sel [simp]:
  "m_NameHash (set_OffsetWrite ow f) = m_NameHash f"
  "m_Files (set_OffsetWrite ow f) = m_Files f"
  "m_OffsetWrite (set_OffsetWrite ow f) = ow"
  by (cases f; simp)+

lemma set_Files_sel [simp]:
  "m_NameHash (set_Files files f) = m_NameHash f"
  "m_Files (set_Files files f) = files"
  "m_OffsetWrite (set_Files files f) = m_OffsetWrite f"
  by (cases f; simp)+

lemma length_record_file_offsets [simp]:
  "length (record_file_offsets dpos files) = length files"
  by (induction files arbitrary: dpos) simp_all

lemma file_records_real:
  "concat (map file_header_bytes (record_file_offsets dpos files)) = real_file_records dpos files"
  by (induction files arbitrary: dpos) (simp_all add: file_header_bytes_def)

lemma folder_records_real:
  "concat (map (folder_header_bytes \<circ> snd) (record_data_offsets dpos (record_offsets pos fnl folders))) =
     real_folder_records pos fnl folders"
  by (induction folders arbitrary: pos dpos) (simp_all add: folder_header_bytes_def)

lemma name_blocks_real:
  "concat (map block_bytes (record_data_offsets dpos (record_offsets pos fnl folders))) =
     real_name_blocks dpos folders"
  by (induction folders arbitrary: pos dpos) (simp_all add: block_bytes_def file_records_real)

lemma length_folder_headers [simp]:
  "length (concat (map (folder_header_bytes \<circ> snd) folders)) = 16 * length folders"
  by (induction folders) simp_all

lemma length_blocks [simp]:
  "length (concat (map block_bytes folders)) = blocks_size folders"
  by (induction folders) (simp_all add: blocks_size_def)

lemma length_real_folder_records [simp]:
  "length (real_folder_records pos fnl folders) = 16 * length folders"
  by (induction folders arbitrary: pos) simp_all

lemma length_real_file_records [simp]:
  "length (real_file_records dpos files) = 16 * length files"
  by (induction files arbitrary: dpos) simp_all

lemma length_real_name_blocks [simp]:
  "length (real_name_blocks dpos folders) = blocks_size folders"
  by (induction folders arbitrary: dpos)
     (simp_all add: blocks_size_def block_size_def string_bytes_def)

lemma writeULong_bytes:
  "writeULong v (stream_write pre s) = stream_write (pre @ u32_bytes v) s"
  by (simp add: writeULong_def stream_write_append)

lemma length_archive_header_bytes: "length (archive_header_bytes a typeID) = 0x24"
  by (simp add: archive_header_bytes_def)

lemma Archive_writeHeader_bytes:
  assumes "typeToID (m_Type a) = Inr typeID"
  shows "Archive_writeHeader a (determineFileFlags (fileNames_of (write_folders a)))
           (of_nat (length (write_folders a)))
           (names_length (folderNames_of (write_folders a))) (write_fileNamesLength a) s =
         Inr (stream_write (archive_header_bytes a typeID) s)"
  using assms
  by (simp add: Archive_writeHeader_def writeULong_bytes archive_header_bytes_def)

lemma write_placeholder_pass_layout:
  assumes "typeToID (m_Type a) = Inr typeID"
  shows "write_placeholder_pass a =
     Inr (record_data_offsets (payload_start a)
            (record_offsets (names_start a) (write_fileNamesLength a) (write_folders a)),
          snd (copied_payloads (all_files (write_folders a)) (m_File a)),
          stream_write
            (archive_header_bytes a typeID @
             concat (map (folder_header_bytes \<circ> snd) (write_folders a)) @
             concat (map block_bytes (write_folders a)) @
             name_table (fileNames_of (write_folders a)) @
             fst (copied_payloads (all_files (write_folders a)) (m_File a)))
            \<lparr>obuf = [], opos = 0\<rparr>)"
proof -
  have all: "all_files (record_offsets pos fnl folders) = all_files folders" for pos fnl folders
    by (induction folders arbitrary: pos) (simp_all add: all_files_def)
  show ?thesis
    unfolding write_placeholder_pass_def Let_def
    apply (fold write_folders_def)
    apply (fold write_fileNamesLength_def)
    apply (simp add: Archive_writeHeader_bytes [OF assms] writeHeader_pass_bytes
        writeData_pass_bytes writeZString_pass_bytes writeFileData_pass_bytes all
        length_archive_header_bytes names_start_def payload_start_def add.assoc)
    done
qed

text \<open>
  The file-name table itself is longer than the file-name length of the header: every
  name in it is followed by its terminator.
\<close>

lemma length_name_table:
  "length (name_table names) = sum_list (map (\<lambda>name. length name + 1) names)"
  by (induction names) (simp_all add: name_table_def string_bytes_def)

text \<open>
  C7: when \<open>write\<close> completes successfully (the target can be opened and the archive
  type has a version id), the placeholder pass has written the header of \<open>0x24\<close>
  bytes, folder records, name blocks with file records, the file-name table and the
  payloads; the second pass has rewritten the folder records and the name blocks from
  offset \<open>0x24\<close> on, with the same lengths and so at the same positions, and nothing
  else; and the rewritten records hold the real offsets: each folder record the position
  of its name block plus the file-name length that \<open>write\<close> computes and stores in the
  header (bytes 28 to 31), each file record the position of its payload in the output.
\<close>

theorem C7_write_rewrites_records:
  assumes w: "writable fileName" and t: "typeToID (m_Type a) = Inr typeID"
  shows "\<exists>placeholder_records placeholder_blocks folders1 sourceFile1 s1 folders2.
     write_placeholder_pass a = Inr (folders1, sourceFile1, s1) \<and>
     obuf s1 =
       archive_header_bytes a typeID @ placeholder_records @ placeholder_blocks @
       name_table (fileNames_of (write_folders a)) @
       fst (copied_payloads (all_files (write_folders a)) (m_File a)) \<and>
     length (archive_header_bytes a typeID) = 0x24 \<and>
     take 4 (drop 28 (archive_header_bytes a typeID)) = u32_bytes (write_fileNamesLength a) \<and>
     length placeholder_records =
       length (real_folder_records (names_start a) (write_fileNamesLength a) (write_folders a)) \<and>
     length placeholder_blocks =
       length (real_name_blocks (payload_start a) (write_folders a)) \<and>
     Archive_write writable a fileName =
       (Inr ERROR_NONE, folders2, sourceFile1,
        archive_header_bytes a typeID @
        real_folder_records (names_start a) (write_fileNamesLength a) (write_folders a) @
        real_name_blocks (payload_start a) (write_folders a) @
        name_table (fileNames_of (write_folders a)) @
        fst (copied_payloads (all_files (write_folders a)) (m_File a)))"
proof -
  define fs where "fs = write_folders a"
  define fnl where "fnl = write_fileNamesLength a"
  define hdr where "hdr = archive_header_bytes a typeID"
  define H0 where "H0 = concat (map (folder_header_bytes \<circ> snd) fs)"
  define B0 where "B0 = concat (map block_bytes fs)"
  define T where "T = name_table (fileNames_of fs)"
  define D where "D = fst (copied_payloads (all_files fs) (m_File a))"
  define src1 where "src1 = snd (copied_payloads (all_files fs) (m_File a))"
  define fs2 where
    "fs2 = record_data_offsets (payload_start a) (record_offsets (names_start a) fnl fs)"
  define R where "R = real_folder_records (names_start a) fnl fs"
  define B where "B = real_name_blocks (payload_start a) fs"
  define X where "X = hdr @ H0 @ B0 @ T @ D"
  have lh: "length hdr = 36"
    by (simp add: hdr_def length_archive_header_bytes)
  have first: "write_placeholder_pass a = Inr (fs2, src1, \<lparr>obuf = X, opos = length X\<rparr>)"
    using write_placeholder_pass_layout [OF t]
    by (simp add: fs_def fnl_def hdr_def H0_def B0_def T_def D_def src1_def fs2_def X_def
        stream_write_empty_stream)
  have seek: "seekp 0x24 \<lparr>obuf = X, opos = length X\<rparr> = stream_write hdr \<lparr>obuf = X, opos = 0\<rparr>"
    by (simp add: seekp_def stream_write_def X_def lh)
  have R: "concat (map (folder_header_bytes \<circ> snd) fs2) = R"
    unfolding fs2_def R_def by (rule folder_records_real)
  have B: "concat (map block_bytes fs2) = B"
    unfolding fs2_def B_def by (rule name_blocks_real)
  have lens: "length R = length H0" "length B = length B0"
    by (simp_all add: R_def B_def H0_def B0_def)
  have fixup: "write_fixup_pass fnl fs2 \<lparr>obuf = X, opos = length X\<rparr> =
      (record_offsets (length hdr + length R) fnl fs2,
       stream_write (hdr @ R @ B) \<lparr>obuf = X, opos = 0\<rparr>)"
    by (simp add: write_fixup_pass_def seek writeHeader_pass_bytes writeData_pass_bytes R B)
  have out: "obuf (stream_write (hdr @ R @ B) \<lparr>obuf = X, opos = 0\<rparr>) = hdr @ R @ B @ T @ D"
    by (simp add: stream_write_def X_def lens)
  have second: "Archive_write writable a fileName =
      (Inr ERROR_NONE, record_offsets (length hdr + length R) fnl fs2, src1,
       hdr @ R @ B @ T @ D)"
    using w first fixup out
    by (simp add: Archive_write_def fnl_def write_fileNamesLength_def write_folders_def)
  have field: "take 4 (drop 28 hdr) = u32_bytes fnl"
    by (simp add: hdr_def fnl_def archive_header_bytes_def)
  show ?thesis
    using first second lh lens field
    unfolding fs_def [symmetric] fnl_def [symmetric] hdr_def [symmetric] T_def [symmetric]
      D_def [symmetric] R_def [symmetric] B_def [symmetric]
    by (intro exI [of _ H0] exI [of _ B0] exI [of _ fs2] exI [of _ src1]
        exI [of _ "\<lparr>obuf = X, opos = length X\<rparr>"]
        exI [of _ "record_offsets (length hdr + length R) fnl fs2"])
       (simp add: X_def)
qed

lemma example_write_layout:
  "archive_header_bytes example_write_archive 0x68 @
   real_folder_records (names_start example_write_archive)
     (write_fileNamesLength example_write_archive) (write_folders example_write_archive) @
   real_name_blocks (payload_start example_write_archive) (write_folders example_write_archive) @
   name_table (fileNames_of (write_folders example_write_archive)) @
   fst (copied_payloads (all_files (write_folders example_write_archive))
          (m_File example_write_archive)) =
   example_written_bytes"
  by code_simp

theorem C7_write_rewrites_records_witness:
  "\<exists>folders2 sourceFile1.
     Archive_write always_writable example_write_archive ''out.bsa'' =
       (Inr ERROR_NONE, folders2, sourceFile1, example_written_bytes)"
proof -
  have w: "always_writable ''out.bsa''"
    by (simp add: always_writable_def)
  have t: "typeToID (m_Type example_write_archive) = Inr 0x68"
    by (simp add: example_write_archive_def typeToID_def)
  from C7_write_rewrites_records
    [of always_writable "''out.bsa''" example_write_archive "0x68", OF w t]
  show ?thesis
    unfolding example_write_layout by blast
qed

end
